theory Spec2Isabelle
  imports Complex_Main "HOL-Library.Char_ord" "HOL-Library.List_Lexorder" "HOL-Library.Sublist"
begin

section \<open>Python values and the dynamic operations the agents use\<close>

text \<open>
  Upstream responses and request parameters are untyped JSON. A number is a \<^typ>\<open>real\<close>
  (exact arithmetic stands for Python's \<open>int\<close> and \<open>float\<close>), a dict is an association list
  read with \<^const>\<open>map_of\<close>, in insertion order.
\<close>

datatype json =
    JNull
  | JBool bool
  | JNum real
  | JStr string
  | JArr "json list"
  | JObj "(string \<times> json) list"

text \<open>
  Exceptions are values. \<open>ClientError\<close> stands for any transport failure or timeout of an
  HTTP call, \<open>Exception\<close> with its message for the \<open>raise Exception(...)\<close> of the Bitquery
  module.
\<close>

datatype exn =
    KeyError
  | TypeError
  | AttributeError
  | ValueError
  | IndexError
  | JSONDecodeError
  | ZeroDivisionError
  | ClientError
  | Exception string

definition ebind :: "exn + 'a \<Rightarrow> ('a \<Rightarrow> exn + 'b) \<Rightarrow> exn + 'b" where
  "ebind m f = (case m of Inl e \<Rightarrow> Inl e | Inr x \<Rightarrow> f x)"

text \<open>A comprehension or \<open>for\<close> loop whose body may raise stops at the first exception.\<close>

fun emap :: "('a \<Rightarrow> exn + 'b) \<Rightarrow> 'a list \<Rightarrow> exn + 'b list" where
  "emap f [] = Inr []"
| "emap f (x # xs) = ebind (f x) (\<lambda>y. ebind (emap f xs) (\<lambda>ys. Inr (y # ys)))"

fun efilter :: "('a \<Rightarrow> exn + bool) \<Rightarrow> 'a list \<Rightarrow> exn + 'a list" where
  "efilter p [] = Inr []"
| "efilter p (x # xs) =
     ebind (p x) (\<lambda>b. ebind (efilter p xs) (\<lambda>ys. Inr (if b then x # ys else ys)))"

text \<open>Truth value of an object, as \<open>if x:\<close> and \<open>not x\<close> test it.\<close>

fun truthy :: "json \<Rightarrow> bool" where
  "truthy JNull = False"
| "truthy (JBool b) = b"
| "truthy (JNum r) = (r \<noteq> 0)"
| "truthy (JStr s) = (s \<noteq> [])"
| "truthy (JArr xs) = (xs \<noteq> [])"
| "truthy (JObj kvs) = (kvs \<noteq> [])"

text \<open>\<open>v.get(k, d)\<close>: only a dict has the method.\<close>

fun dict_get :: "json \<Rightarrow> string \<Rightarrow> json \<Rightarrow> exn + json" where
  "dict_get (JObj kvs) k d = Inr (case map_of kvs k of Some x \<Rightarrow> x | None \<Rightarrow> d)"
| "dict_get _ k d = Inl AttributeError"

text \<open>\<open>v[k]\<close> with a string key \<open>k\<close>.\<close>

fun subscript :: "json \<Rightarrow> string \<Rightarrow> exn + json" where
  "subscript (JObj kvs) k = (case map_of kvs k of Some x \<Rightarrow> Inr x | None \<Rightarrow> Inl KeyError)"
| "subscript _ k = Inl TypeError"

text \<open>\<open>v[0]\<close>. No key of a JSON dict is the integer 0.\<close>

fun index0 :: "json \<Rightarrow> exn + json" where
  "index0 (JArr []) = Inl IndexError"
| "index0 (JArr (x # xs)) = Inr x"
| "index0 (JStr []) = Inl IndexError"
| "index0 (JStr (c # cs)) = Inr (JStr [c])"
| "index0 (JObj kvs) = Inl KeyError"
| "index0 _ = Inl TypeError"

text \<open>Iteration: a list gives its elements, a dict its keys, a string its characters.\<close>

fun py_iter :: "json \<Rightarrow> exn + json list" where
  "py_iter (JArr xs) = Inr xs"
| "py_iter (JObj kvs) = Inr (map (\<lambda>kv. JStr (fst kv)) kvs)"
| "py_iter (JStr s) = Inr (map (\<lambda>c. JStr [c]) s)"
| "py_iter _ = Inl TypeError"

text \<open>The numeric value of a number; \<open>bool\<close> is a subtype of \<open>int\<close> in Python.\<close>

fun num_of :: "json \<Rightarrow> real option" where
  "num_of (JNum r) = Some r"
| "num_of (JBool b) = Some (if b then 1 else 0)"
| "num_of _ = None"

fun str_of :: "json \<Rightarrow> string option" where
  "str_of (JStr s) = Some s"
| "str_of _ = None"

text \<open>
  \<open>a < b\<close>. Numbers compare by value and strings by code points; \<open>None\<close> and dicts support
  no ordering and two values of different kinds raise \<open>TypeError\<close>. Python also orders lists
  elementwise; no value compared by the agents (a price, a time stamp) is a list, and a list
  is taken as not orderable here.
\<close>

definition py_lt :: "json \<Rightarrow> json \<Rightarrow> exn + bool" where
  "py_lt a b =
     (case (num_of a, num_of b) of
        (Some x, Some y) \<Rightarrow> Inr (x < y)
      | _ \<Rightarrow> (case (str_of a, str_of b) of
                 (Some s, Some t) \<Rightarrow> Inr (s < t)
               | _ \<Rightarrow> Inl TypeError))"

text \<open>\<open>a + b\<close>, \<open>a - b\<close>, \<open>a * b\<close> and \<open>a / b\<close> as the agents use them, on numbers.\<close>

definition py_arith :: "(real \<Rightarrow> real \<Rightarrow> real) \<Rightarrow> json \<Rightarrow> json \<Rightarrow> exn + json" where
  "py_arith f a b =
     (case (num_of a, num_of b) of
        (Some x, Some y) \<Rightarrow> Inr (JNum (f x y))
      | _ \<Rightarrow> Inl TypeError)"

definition py_div :: "json \<Rightarrow> json \<Rightarrow> exn + json" where
  "py_div a b =
     (case (num_of a, num_of b) of
        (Some x, Some y) \<Rightarrow> if y = 0 then Inl ZeroDivisionError else Inr (JNum (x / y))
      | _ \<Rightarrow> Inl TypeError)"

text \<open>\<open>a != 0\<close>: a value that is not a number differs from 0.\<close>

definition py_ne_zero :: "json \<Rightarrow> bool" where
  "py_ne_zero a = (num_of a \<noteq> Some 0)"

text \<open>
  \<open>sum(xs)\<close> adds from the left, starting at 0. \<open>max(xs)\<close> keeps the first element and
  replaces it by each later one that is greater; \<open>min(xs)\<close> by each later one that is less.
\<close>

fun py_sum_from :: "json \<Rightarrow> json list \<Rightarrow> exn + json" where
  "py_sum_from acc [] = Inr acc"
| "py_sum_from acc (x # xs) = ebind (py_arith (+) acc x) (\<lambda>a. py_sum_from a xs)"

definition py_sum :: "json list \<Rightarrow> exn + json" where
  "py_sum xs = py_sum_from (JNum 0) xs"

fun py_max_from :: "json \<Rightarrow> json list \<Rightarrow> exn + json" where
  "py_max_from m [] = Inr m"
| "py_max_from m (x # xs) = ebind (py_lt m x) (\<lambda>b. py_max_from (if b then x else m) xs)"

fun py_max :: "json list \<Rightarrow> exn + json" where
  "py_max [] = Inl ValueError"
| "py_max (x # xs) = py_max_from x xs"

fun py_min_from :: "json \<Rightarrow> json list \<Rightarrow> exn + json" where
  "py_min_from m [] = Inr m"
| "py_min_from m (x # xs) = ebind (py_lt x m) (\<lambda>b. py_min_from (if b then x else m) xs)"

fun py_min :: "json list \<Rightarrow> exn + json" where
  "py_min [] = Inl ValueError"
| "py_min (x # xs) = py_min_from x xs"

text \<open>
  The builtins whose text results are not modelled: \<open>float(s)\<close> on a string (\<open>None\<close>: it
  raises \<open>ValueError\<close>), \<open>json.loads\<close> (\<open>None\<close>: it raises), \<open>str(e)\<close> of a builtin
  exception, and the text an f-string gives a value that is not a string.
\<close>

record builtins =
  float_of_str :: "string \<Rightarrow> real option"
  json_loads :: "string \<Rightarrow> json option"
  str_of_exn :: "exn \<Rightarrow> string"
  str_of_value :: "json \<Rightarrow> string"

definition exn_str :: "builtins \<Rightarrow> exn \<Rightarrow> string" where
  "exn_str b e = (case e of Exception msg \<Rightarrow> msg | _ \<Rightarrow> str_of_exn b e)"

definition fmt :: "builtins \<Rightarrow> json \<Rightarrow> string" where
  "fmt b v = (case v of JStr s \<Rightarrow> s | _ \<Rightarrow> str_of_value b v)"

text \<open>\<open>float(v)\<close>.\<close>

definition py_float :: "builtins \<Rightarrow> json \<Rightarrow> exn + json" where
  "py_float b v =
     (case v of
        JNum r \<Rightarrow> Inr (JNum r)
      | JBool t \<Rightarrow> Inr (JNum (if t then 1 else 0))
      | JStr s \<Rightarrow> (case float_of_str b s of Some r \<Rightarrow> Inr (JNum r) | None \<Rightarrow> Inl ValueError)
      | _ \<Rightarrow> Inl TypeError)"

definition error_dict :: "string \<Rightarrow> json" where
  "error_dict msg = JObj [(''error'', JStr msg)]"

section \<open>Solana wallet agent: the per-wallet asset fetch\<close>

record holding =
  token_address :: json
  token_img :: json
  symbol :: json
  price_per_token :: json
  total_price :: json

definition sol_address :: string where
  "sol_address = ''So11111111111111111111111111111111111111112''"

text \<open>
  The condition of the first comprehension of \<open>get_wallet_assets\<close>:
  \<open>item.get("token_info", {}).get("price_info") and
   item["token_info"]["price_info"].get("total_price", 0) > 100\<close>.
\<close>

definition has_price_over_100 :: "json \<Rightarrow> exn + bool" where
  "has_price_over_100 item =
     ebind (dict_get item ''token_info'' (JObj [])) (\<lambda>ti.
     ebind (dict_get ti ''price_info'' JNull) (\<lambda>pinfo.
       if \<not> truthy pinfo then Inr False
       else
         ebind (subscript item ''token_info'') (\<lambda>ti2.
         ebind (subscript ti2 ''price_info'') (\<lambda>pi2.
         ebind (dict_get pi2 ''total_price'' (JNum 0)) (\<lambda>tp.
           py_lt (JNum 100) tp)))))"

definition not_mutable :: "json \<Rightarrow> exn + bool" where
  "not_mutable asset =
     ebind (dict_get asset ''mutable'' (JBool False)) (\<lambda>m. Inr (\<not> truthy m))"

text \<open>The dict built for one asset of \<open>non_mutable_assets\<close>, its values in display order.\<close>

definition asset_holding :: "json \<Rightarrow> exn + holding" where
  "asset_holding asset =
     ebind (subscript asset ''id'') (\<lambda>ident.
     ebind (dict_get asset ''content'' (JObj [])) (\<lambda>content.
     ebind (dict_get content ''files'' JNull) (\<lambda>files.
     ebind (if truthy files
            then ebind (dict_get asset ''content'' (JObj [])) (\<lambda>content2.
                 ebind (dict_get content2 ''files'' (JArr [JObj []])) index0)
            else Inr (JObj [])) (\<lambda>file.
     ebind (dict_get file ''cdn_uri'' (JStr [])) (\<lambda>img.
     ebind (dict_get asset ''token_info'' (JObj [])) (\<lambda>ti.
     ebind (dict_get ti ''symbol'' (JStr [])) (\<lambda>sym.
     ebind (dict_get ti ''price_info'' (JObj [])) (\<lambda>pinfo.
     ebind (dict_get pinfo ''price_per_token'' (JNum 0)) (\<lambda>ppt.
     ebind (dict_get ti ''price_info'' (JObj [])) (\<lambda>pinfo2.
     ebind (dict_get pinfo2 ''total_price'' (JNum 0)) (\<lambda>tp.
       Inr \<lparr>token_address = ident, token_img = img, symbol = sym,
            price_per_token = ppt, total_price = tp\<rparr>)))))))))))"

text \<open>The native holding appended when \<open>data["result"].get("nativeBalance")\<close> is truthy.\<close>

definition native_holding :: "json \<Rightarrow> exn + holding" where
  "native_holding native_balance =
     ebind (dict_get native_balance ''price_per_sol'' (JNum 0)) (\<lambda>pps.
     ebind (dict_get native_balance ''total_price'' (JNum 0)) (\<lambda>tp.
       Inr \<lparr>token_address = JStr sol_address, token_img = JStr [], symbol = JStr ''SOL'',
            price_per_token = pps, total_price = tp\<rparr>))"

text \<open>
  The body of the \<open>try\<close> block of \<open>get_wallet_assets\<close> after the request, on the decoded
  response \<open>data\<close>.
\<close>

definition wallet_assets_of :: "json \<Rightarrow> exn + holding list" where
  "wallet_assets_of data =
     (if data = JNull then Inr []
      else if (case data of JObj kvs \<Rightarrow> \<not> truthy (case map_of kvs ''result'' of Some r \<Rightarrow> r | None \<Rightarrow> JNull)
               | _ \<Rightarrow> False)
      then Inr []
      else
        ebind (subscript data ''result'') (\<lambda>res.
        ebind (subscript res ''items'') (\<lambda>items.
        ebind (py_iter items) (\<lambda>its.
        ebind (efilter has_price_over_100 its) (\<lambda>filtered_assets.
        ebind (efilter not_mutable filtered_assets) (\<lambda>non_mutable_assets.
        ebind (subscript data ''result'') (\<lambda>res2.
        ebind (dict_get res2 ''nativeBalance'' JNull) (\<lambda>native_balance.
        ebind (if truthy native_balance
               then ebind (native_holding native_balance) (\<lambda>h. Inr [h])
               else Inr []) (\<lambda>hold_tokens.
        ebind (emap asset_holding non_mutable_assets) (\<lambda>others.
          Inr (hold_tokens @ others)))))))))))"

text \<open>
  The Helius indexer, as the agent sees it: the decoded reply of the \<open>searchAssets\<close>
  request for an owner (\<open>Inl\<close> when \<open>_post\<close> raises), the list returned by
  \<open>_get_holders(token_address, top_n)\<close>, and the list returned by \<open>get_tx_history\<close>.
  \<open>_get_holders\<close> pages through the token accounts over the network and catches every
  exception itself; what it returns is taken as given, with the owner address a string.
\<close>

record holder =
  address :: string
  amount :: real
  percentage :: string

record helius =
  search_assets :: "json \<Rightarrow> exn + json"
  get_holders :: "json \<Rightarrow> json \<Rightarrow> holder list"
  get_tx_history :: "json \<Rightarrow> json list"

text \<open>
  \<open>get_wallet_assets\<close>. Every exception ends in \<open>return []\<close>, so the \<open>retry\<close> decorator
  never sees one; the cache is taken as transparent.
\<close>

definition get_wallet_assets :: "helius \<Rightarrow> json \<Rightarrow> holding list" where
  "get_wallet_assets h owner_address =
     (case ebind (search_assets h owner_address) wallet_assets_of of
        Inl e \<Rightarrow> []
      | Inr hold_tokens \<Rightarrow> hold_tokens)"

section \<open>Solana wallet agent: the holder analysis\<close>

record contribution =
  c_address :: string
  c_total_price :: real
  c_percentage :: string
  gmgn_link_owner_address :: string

record aggregate =
  a_token_address :: json
  a_token_img :: json
  a_symbol :: json
  a_price_per_token :: json
  total_holding_value :: real
  holders :: "contribution list"
  gmgn_referral_link :: "string option"

definition raydium_address :: string where
  "raydium_address = ''5Q544fKrFoe6tsEbD7S8EmxGTJYAKtTVhAW5Q5pge4j1''"

text \<open>
  \<open>token_map\<close> is a dict in insertion order. A list or a dict is not hashable; \<open>True\<close> and
  \<open>1\<close> are the same key.
\<close>

fun hash_key :: "json \<Rightarrow> exn + json" where
  "hash_key (JArr xs) = Inl TypeError"
| "hash_key (JObj kvs) = Inl TypeError"
| "hash_key (JBool b) = Inr (JNum (if b then 1 else 0))"
| "hash_key v = Inr v"

fun dict_set :: "'k \<Rightarrow> 'v \<Rightarrow> ('k \<times> 'v) list \<Rightarrow> ('k \<times> 'v) list" where
  "dict_set k v [] = [(k, v)]"
| "dict_set k v (p # ps) = (if fst p = k then (k, v) # ps else p # dict_set k v ps)"

definition new_entry :: "holding \<Rightarrow> aggregate" where
  "new_entry token =
     \<lparr>a_token_address = token_address token, a_token_img = token_img token,
      a_symbol = symbol token, a_price_per_token = price_per_token token,
      total_holding_value = 0, holders = [], gmgn_referral_link = None\<rparr>"

definition contribution_of :: "holder \<Rightarrow> real \<Rightarrow> contribution" where
  "contribution_of hr p =
     \<lparr>c_address = address hr, c_total_price = p, c_percentage = percentage hr,
      gmgn_link_owner_address = ''https://gmgn.ai/sol/address/'' @ address hr\<rparr>"

text \<open>
  One pass of the inner loop \<open>for token in assets\<close>. \<open>+=\<close> on the running total raises
  \<open>TypeError\<close> unless \<open>total_price\<close> is a number; the holder record keeps the number.
\<close>

definition add_token :: "holder \<Rightarrow> (json \<times> aggregate) list \<Rightarrow> holding
    \<Rightarrow> exn + (json \<times> aggregate) list" where
  "add_token hr token_map token =
     ebind (hash_key (token_address token)) (\<lambda>k.
       let entry = (case map_of token_map k of None \<Rightarrow> new_entry token | Some a \<Rightarrow> a)
       in case num_of (total_price token) of
            None \<Rightarrow> Inl TypeError
          | Some p \<Rightarrow>
              Inr (dict_set k
                     (entry\<lparr>total_holding_value := total_holding_value entry + p,
                            holders := holders entry @ [contribution_of hr p]\<rparr>)
                     token_map))"

fun add_tokens :: "holder \<Rightarrow> (json \<times> aggregate) list \<Rightarrow> holding list
    \<Rightarrow> exn + (json \<times> aggregate) list" where
  "add_tokens hr token_map [] = Inr token_map"
| "add_tokens hr token_map (token # assets) =
     ebind (add_token hr token_map token) (\<lambda>m. add_tokens hr m assets)"

text \<open>
  The outer loop \<open>for holder, assets in zip(top_holders, assets_results)\<close>. Its guard
  \<open>assets is None or isinstance(assets, dict) ...\<close> never holds: \<open>get_wallet_assets\<close>
  returns a list.
\<close>

fun merge_holders :: "(json \<times> aggregate) list \<Rightarrow> (holder \<times> holding list) list
    \<Rightarrow> exn + (json \<times> aggregate) list" where
  "merge_holders token_map [] = Inr token_map"
| "merge_holders token_map ((hr, assets) # rest) =
     ebind (add_tokens hr token_map assets) (\<lambda>m. merge_holders m rest)"

text \<open>
  \<open>sorted(xs, key=f, reverse=True)\<close>: Python reverses, sorts stably in ascending order and
  reverses again, so equal keys keep their original order.
\<close>

definition sorted_desc :: "('a \<Rightarrow> real) \<Rightarrow> 'a list \<Rightarrow> 'a list" where
  "sorted_desc f xs = rev (sort_key f (rev xs))"

definition referral_link :: string where
  "referral_link = ''https://gmgn.ai/?ref=WtaAO4Jn&chain=sol''"

definition rank_holders :: "aggregate \<Rightarrow> aggregate" where
  "rank_holders token =
     token\<lparr>holders := take 5 (sorted_desc c_total_price (holders token)),
           gmgn_referral_link := Some referral_link\<rparr>"

definition rank_tokens :: "(json \<times> aggregate) list \<Rightarrow> aggregate list" where
  "rank_tokens token_map =
     map rank_holders (take 5 (sorted_desc total_holding_value (map snd token_map)))"

text \<open>The part of \<open>analyze_holders\<close> after \<open>asyncio.gather\<close> has returned.\<close>

definition analyze_results :: "holder list \<Rightarrow> holding list list \<Rightarrow> aggregate list" where
  "analyze_results top_holders assets_results =
     (case merge_holders [] (zip top_holders assets_results) of
        Inl e \<Rightarrow> []
      | Inr token_map \<Rightarrow> rank_tokens token_map)"

definition top_holders_of :: "holder list \<Rightarrow> holder list" where
  "top_holders_of hs = filter (\<lambda>h. address h \<noteq> raydium_address) hs"

text \<open>
  \<open>analyze_holders\<close>, with \<open>asyncio.gather\<close> read by its contract: the results come in the
  order of the tasks.
\<close>

definition analyze_holders :: "helius \<Rightarrow> json \<Rightarrow> json \<Rightarrow> aggregate list" where
  "analyze_holders h token_addr top_n =
     (let hs = get_holders h token_addr top_n
      in if hs = [] then []
         else let top_holders = top_holders_of hs
              in analyze_results top_holders
                   (map (\<lambda>hr. get_wallet_assets h (JStr (address hr))) top_holders))"

text \<open>
  The same with the completion order of the fetches made explicit. Each task writes its
  result into its own slot when it completes; \<open>gather\<close> returns once every slot is filled
  (\<open>None\<close>: it never returns), and the merge runs after that.
\<close>

definition gather :: "nat list \<Rightarrow> (nat \<Rightarrow> 'a) \<Rightarrow> nat \<Rightarrow> 'a list option" where
  "gather completion task n =
     those (foldl (\<lambda>slots i. slots[i := Some (task i)]) (replicate n None) completion)"

definition analyze_holders_gather :: "nat list \<Rightarrow> helius \<Rightarrow> json \<Rightarrow> json
    \<Rightarrow> aggregate list option" where
  "analyze_holders_gather completion h token_addr top_n =
     (let hs = get_holders h token_addr top_n
      in if hs = [] then Some []
         else let top_holders = top_holders_of hs
              in map_option (analyze_results top_holders)
                   (gather completion
                      (\<lambda>i. get_wallet_assets h (JStr (address (top_holders ! i))))
                      (length top_holders)))"

section \<open>Bitquery token-info agent: the trade buckets and their summary\<close>

record bucket =
  time_bucket :: json
  open_price :: json
  high_price :: json
  low_price :: json
  close_price :: json
  volume :: json

text \<open>
  The outcome of \<open>requests.post\<close>: it raises, or there is a response with its status
  code, its text and what \<open>response.json()\<close> gives (\<open>None\<close>: it raises).
\<close>

datatype http_reply = HttpRaise exn | HttpResponse nat string "json option"

record bitquery =
  post_trades :: "json \<Rightarrow> http_reply"
  top_ten_trending_tokens :: "exn + json"
  utcnow_isoformat :: string

text \<open>The body of the loop \<open>for bucket in buckets\<close>.\<close>

definition organize_bucket :: "builtins \<Rightarrow> json \<Rightarrow> exn + bucket" where
  "organize_bucket b bkt =
     ebind (dict_get bkt ''Block'' (JObj [])) (\<lambda>block.
     ebind (dict_get block ''Time'' JNull) (\<lambda>time_b.
     ebind (dict_get bkt ''open'' JNull) (\<lambda>open_p.
     ebind (dict_get bkt ''max'' JNull) (\<lambda>high_p.
     ebind (dict_get bkt ''min'' JNull) (\<lambda>low_p.
     ebind (dict_get bkt ''close'' JNull) (\<lambda>close_p.
     ebind (dict_get bkt ''volume'' (JStr ''0'')) (\<lambda>volume_str.
     ebind (case py_float b volume_str of
              Inl ValueError \<Rightarrow> Inr volume_str
            | Inl e \<Rightarrow> Inl e
            | Inr v \<Rightarrow> Inr v) (\<lambda>vol.
       Inr \<lparr>time_bucket = time_b, open_price = open_p, high_price = high_p,
            low_price = low_p, close_price = close_p, volume = vol\<rparr>))))))))"

fun num_val :: "json \<Rightarrow> real" where
  "num_val (JNum r) = r"
| "num_val (JBool b) = (if b then 1 else 0)"
| "num_val _ = 0"

fun str_val :: "json \<Rightarrow> string" where
  "str_val (JStr s) = s"
| "str_val _ = []"

text \<open>
  \<open>organized_data.sort(key=lambda x: x["time"])\<close>, a stable sort. With fewer than two
  items nothing is compared. With two or more, every key is compared with another one, and
  the comparisons succeed exactly when all keys are numbers or all are strings (see
  \<^const>\<open>py_lt\<close>); otherwise the sort raises \<open>TypeError\<close>.
\<close>

definition sort_by_time :: "bucket list \<Rightarrow> exn + bucket list" where
  "sort_by_time organized_data =
     (if length organized_data \<le> 1 then Inr organized_data
      else if list_all (\<lambda>x. num_of (time_bucket x) \<noteq> None) organized_data
        then Inr (sort_key (\<lambda>x. num_val (time_bucket x)) organized_data)
      else if list_all (\<lambda>x. str_of (time_bucket x) \<noteq> None) organized_data
        then Inr (sort_key (\<lambda>x. str_val (time_bucket x)) organized_data)
      else Inl TypeError)"

definition fetch_and_organize_dex_trade_data :: "builtins \<Rightarrow> bitquery \<Rightarrow> json
    \<Rightarrow> exn + bucket list" where
  "fetch_and_organize_dex_trade_data b q base_address =
     (case post_trades q base_address of
        HttpRaise e \<Rightarrow> Inl e
      | HttpResponse status_code text body \<Rightarrow>
          if status_code \<noteq> 200
          then Inl (Exception (''Query failed with status code ''
                                 @ fmt b (JNum (real status_code)) @ '': '' @ text))
          else (case body of
                  None \<Rightarrow> Inl JSONDecodeError
                | Some raw_data \<Rightarrow>
                   (case ebind (subscript raw_data ''data'') (\<lambda>d.
                         ebind (subscript d ''Solana'') (\<lambda>sl.
                           subscript sl ''DEXTradeByTokens'')) of
                      Inl e \<Rightarrow> Inl (Exception ''Unexpected data format received from the API.'')
                    | Inr buckets \<Rightarrow>
                        ebind (py_iter buckets) (\<lambda>bs.
                        ebind (emap (organize_bucket b) bs) sort_by_time))))"

record summary =
  current_price :: json
  price_change_1h :: json
  price_change_percentage_1h :: json
  highest_price_1h :: json
  lowest_price_1h :: json
  total_volume_1h :: json
  last_updated :: string

text \<open>
  The block of \<open>get_token_trading_info\<close> under \<open>if trading_data:\<close>, which builds the
  summary from a non-empty list.
\<close>

fun derive_summary :: "bitquery \<Rightarrow> bucket list \<Rightarrow> exn + summary" where
  "derive_summary q [] = Inl IndexError"
| "derive_summary q (first_data # rest) =
     (let trading_data = first_data # rest; latest_data = last trading_data
      in ebind (py_arith (-) (close_price latest_data) (open_price first_data)) (\<lambda>price_change.
         ebind (if py_ne_zero (open_price first_data)
                then ebind (py_div price_change (open_price first_data)) (\<lambda>r.
                       py_arith (*) r (JNum 100))
                else Inr (JNum 0)) (\<lambda>price_change_percent.
         ebind (py_sum (map volume trading_data)) (\<lambda>total_volume.
         ebind (py_max (map high_price trading_data)) (\<lambda>highest.
         ebind (py_min (map low_price trading_data)) (\<lambda>lowest.
           Inr \<lparr>current_price = close_price latest_data,
                price_change_1h = price_change,
                price_change_percentage_1h = price_change_percent,
                highest_price_1h = highest,
                lowest_price_1h = lowest,
                total_volume_1h = total_volume,
                last_updated = utcnow_isoformat q\<rparr>))))))"

definition bucket_json :: "bucket \<Rightarrow> json" where
  "bucket_json x =
     JObj [(''time'', time_bucket x), (''open'', open_price x), (''high'', high_price x),
           (''low'', low_price x), (''close'', close_price x), (''volume'', volume x)]"

definition summary_json :: "summary \<Rightarrow> json" where
  "summary_json s =
     JObj [(''current_price'', current_price s),
           (''price_change_1h'', price_change_1h s),
           (''price_change_percentage_1h'', price_change_percentage_1h s),
           (''highest_price_1h'', highest_price_1h s),
           (''lowest_price_1h'', lowest_price_1h s),
           (''total_volume_1h'', total_volume_1h s),
           (''last_updated'', JStr (last_updated s))]"

definition get_token_trading_info :: "builtins \<Rightarrow> bitquery \<Rightarrow> json \<Rightarrow> json" where
  "get_token_trading_info b q token_addr =
     (case fetch_and_organize_dex_trade_data b q token_addr of
        Inl e \<Rightarrow> error_dict (''Failed to fetch token trading info: '' @ exn_str b e)
      | Inr trading_data \<Rightarrow>
          if trading_data \<noteq> []
          then (case derive_summary q trading_data of
                  Inl e \<Rightarrow> error_dict (''Failed to fetch token trading info: '' @ exn_str b e)
                | Inr s \<Rightarrow> JObj [(''summary'', summary_json s),
                                 (''detailed_data'', JArr (map bucket_json trading_data))])
          else error_dict ''No trading data available'')"

definition get_top_trending_tokens :: "builtins \<Rightarrow> bitquery \<Rightarrow> json" where
  "get_top_trending_tokens b q =
     (case top_ten_trending_tokens q of
        Inl e \<Rightarrow> error_dict (''Failed to fetch top trending tokens: '' @ exn_str b e)
      | Inr trending_tokens \<Rightarrow> JObj [(''trending_tokens'', trending_tokens)])"

section \<open>Request dispatch\<close>

text \<open>
  What \<open>call_llm_with_tools_async\<close> gives back. \<open>NoResponse\<close> is a falsy reply (\<open>None\<close> or
  an empty dict); otherwise the reply is a dict that may hold the model's text under
  \<open>content\<close> and, under \<open>tool_calls\<close>, nothing, one tool-call object or a list of them. A tool call carries its
  id, the function name and the text of the arguments.
\<close>

datatype tool_call =
  ToolCall (call_id: string) (function_name: string) (function_arguments: string)

datatype calls = NoCalls | OneCall tool_call | CallList "tool_call list"

datatype llm_response = NoResponse | Response "string option" calls

fun calls_truthy :: "calls \<Rightarrow> bool" where
  "calls_truthy NoCalls = False"
| "calls_truthy (OneCall c) = True"
| "calls_truthy (CallList cs) = (cs \<noteq> [])"

text \<open>
  The language model: the tool-selection call on the query, and the narration call
  \<open>_respond_with_llm(query, tool_call_id, data)\<close>. Either may raise.
\<close>

record llm =
  call_llm_with_tools :: "json \<Rightarrow> exn + llm_response"
  call_llm :: "json \<Rightarrow> string \<Rightarrow> json \<Rightarrow> exn + string"

text \<open>
  What a request does besides returning: the calls to the language model and the
  operations it invokes, in order.
\<close>

datatype event =
    SelectTool json
  | Invoke string "json list"
  | Narrate json string json

text \<open>
  \<open>_handle_error\<close>, the same in both agents. \<open>"error" in x\<close> is a key test on a dict, a
  membership test on a list and a substring test on a string; \<open>x["error"]\<close> then raises
  unless \<open>x\<close> is a dict.
\<close>

fun handle_error :: "json \<Rightarrow> exn + json" where
  "handle_error (JObj kvs) =
     (case map_of kvs ''error'' of
        Some v \<Rightarrow> Inr (JObj [(''error'', v)])
      | None \<Rightarrow> Inr (JObj []))"
| "handle_error (JArr xs) = (if JStr ''error'' \<in> set xs then Inl TypeError else Inr (JObj []))"
| "handle_error (JStr s) = (if sublist ''error'' s then Inl TypeError else Inr (JObj []))"
| "handle_error _ = Inl TypeError"

text \<open>The end of \<open>_handle_tool_logic\<close>, once the operation \<open>ev\<close> has returned \<open>result\<close>.\<close>

definition tool_result :: "json \<Rightarrow> event \<Rightarrow> (exn + json) \<times> event list" where
  "tool_result result ev =
     (case handle_error result of
        Inl e \<Rightarrow> (Inl e, [ev])
      | Inr error \<Rightarrow> (Inr (if truthy error then error else result), [ev]))"

definition param :: "(string \<times> json) list \<Rightarrow> string \<Rightarrow> json \<Rightarrow> json" where
  "param params k d = (case map_of params k of Some v \<Rightarrow> v | None \<Rightarrow> d)"

definition envelope :: "json \<Rightarrow> json \<Rightarrow> json" where
  "envelope response data = JObj [(''response'', response), (''data'', data)]"

definition missing_input :: json where
  "missing_input = error_dict ''Either 'query' or 'tool' must be provided in the parameters.''"

subsection \<open>The token-info agent\<close>

definition bitquery_handle_tool_logic :: "builtins \<Rightarrow> bitquery \<Rightarrow> json \<Rightarrow> json
    \<Rightarrow> (exn + json) \<times> event list" where
  "bitquery_handle_tool_logic b q tool_name function_args =
     (if tool_name = JStr ''get_token_trading_info''
      then (case subscript function_args ''token_address'' of
              Inl e \<Rightarrow> (Inl e, [])
            | Inr a \<Rightarrow> tool_result (get_token_trading_info b q a)
                        (Invoke ''get_token_trading_info'' [a]))
      else if tool_name = JStr ''get_top_trending_tokens''
      then tool_result (get_top_trending_tokens b q) (Invoke ''get_top_trending_tokens'' [])
      else (Inr (error_dict (''Unsupported tool: '' @ fmt b tool_name)), []))"

text \<open>
  \<open>handle_message\<close> of the token-info agent. It has no \<open>try\<close>: an exception leaves it
  (\<open>Inl\<close>). The decorators around it are not part of this repository's sources.
\<close>

definition bitquery_handle_message :: "builtins \<Rightarrow> bitquery \<Rightarrow> llm \<Rightarrow> (string \<times> json) list
    \<Rightarrow> (exn + json) \<times> event list" where
  "bitquery_handle_message b q l params =
     (let query = param params ''query'' JNull;
          tool_name = param params ''tool'' JNull;
          tool_args = param params ''tool_arguments'' (JObj []);
          raw_data_only = param params ''raw_data_only'' (JBool False)
      in if truthy tool_name
         then (case bitquery_handle_tool_logic b q tool_name tool_args of
                 (Inl e, tr) \<Rightarrow> (Inl e, tr)
               | (Inr data, tr) \<Rightarrow> (Inr (envelope (JStr []) data), tr))
         else if truthy query
         then (case call_llm_with_tools l query of
                 Inl e \<Rightarrow> (Inl e, [SelectTool query])
               | Inr NoResponse \<Rightarrow> (Inr (error_dict ''Failed to process query''), [SelectTool query])
               | Inr (Response content tool_calls) \<Rightarrow>
                   if \<not> calls_truthy tool_calls
                   then (Inr (envelope (JStr (case content of Some c \<Rightarrow> c
                                                | None \<Rightarrow> ''No response content'')) (JObj [])),
                         [SelectTool query])
                   else
                     (let tool_call = (case tool_calls of
                                         CallList (c # cs) \<Rightarrow> c
                                       | OneCall c \<Rightarrow> c)
                      in case json_loads b (function_arguments tool_call) of
                           None \<Rightarrow> (Inl JSONDecodeError, [SelectTool query])
                         | Some tool_call_args \<Rightarrow>
                            (case bitquery_handle_tool_logic b q (JStr (function_name tool_call))
                                    tool_call_args of
                               (Inl e, tr) \<Rightarrow> (Inl e, SelectTool query # tr)
                             | (Inr data, tr) \<Rightarrow>
                                 if truthy raw_data_only
                                 then (Inr (envelope (JStr []) data), SelectTool query # tr)
                                 else
                                   (case call_llm l query (call_id tool_call) data of
                                      Inl e \<Rightarrow>
                                        (Inl e, SelectTool query # tr
                                                @ [Narrate query (call_id tool_call) data])
                                    | Inr explanation \<Rightarrow>
                                        (Inr (envelope (JStr explanation) data),
                                         SelectTool query # tr
                                           @ [Narrate query (call_id tool_call) data])))))
         else (Inr missing_input, []))"

subsection \<open>The wallet agent\<close>

definition holding_json :: "holding \<Rightarrow> json" where
  "holding_json t =
     JObj [(''token_address'', token_address t), (''token_img'', token_img t),
           (''symbol'', symbol t), (''price_per_token'', price_per_token t),
           (''total_price'', total_price t)]"

definition contribution_json :: "contribution \<Rightarrow> json" where
  "contribution_json c =
     JObj [(''address'', JStr (c_address c)), (''total_price'', JNum (c_total_price c)),
           (''percentage'', JStr (c_percentage c)),
           (''gmgn_link_owner_address'', JStr (gmgn_link_owner_address c))]"

definition aggregate_json :: "aggregate \<Rightarrow> json" where
  "aggregate_json a =
     JObj ([(''token_address'', a_token_address a), (''token_img'', a_token_img a),
            (''symbol'', a_symbol a), (''price_per_token'', a_price_per_token a),
            (''total_holding_value'', JNum (total_holding_value a)),
            (''holders'', JArr (map contribution_json (holders a)))]
           @ (case gmgn_referral_link a of
                None \<Rightarrow> []
              | Some link \<Rightarrow> [(''gmgn_referral_link'', JStr link)]))"

definition sol_handle_tool_logic :: "builtins \<Rightarrow> helius \<Rightarrow> json \<Rightarrow> json
    \<Rightarrow> (exn + json) \<times> event list" where
  "sol_handle_tool_logic b h tool_name function_args =
     (if tool_name = JStr ''get_sol_wallet_assets''
      then (case subscript function_args ''owner_address'' of
              Inl e \<Rightarrow> (Inl e, [])
            | Inr owner \<Rightarrow>
                tool_result (JArr (map holding_json (get_wallet_assets h owner)))
                  (Invoke ''get_wallet_assets'' [owner]))
      else if tool_name = JStr ''analyze_sol_token_holders''
      then (case ebind (subscript function_args ''token_address'') (\<lambda>t.
                 ebind (dict_get function_args ''top_n'' (JNum 20)) (\<lambda>n. Inr (t, n))) of
              Inl e \<Rightarrow> (Inl e, [])
            | Inr (t, n) \<Rightarrow>
                tool_result (JArr (map aggregate_json (analyze_holders h t n)))
                  (Invoke ''analyze_holders'' [t, n]))
      else if tool_name = JStr ''get_sol_tx_history''
      then (case subscript function_args ''owner_address'' of
              Inl e \<Rightarrow> (Inl e, [])
            | Inr owner \<Rightarrow>
                tool_result (JArr (get_tx_history h owner)) (Invoke ''get_tx_history'' [owner]))
      else (Inr (error_dict (''Unsupported tool: '' @ fmt b tool_name)), []))"

text \<open>The \<open>try\<close> block of \<open>handle_message\<close> of the wallet agent.\<close>

definition sol_handle_message_try :: "builtins \<Rightarrow> helius \<Rightarrow> llm \<Rightarrow> (string \<times> json) list
    \<Rightarrow> (exn + json) \<times> event list" where
  "sol_handle_message_try b h l params =
     (let query = param params ''query'' JNull;
          tool_name = param params ''tool'' JNull;
          tool_args = param params ''tool_arguments'' (JObj []);
          raw_data_only = param params ''raw_data_only'' (JBool False)
      in if truthy tool_name
         then (case sol_handle_tool_logic b h tool_name tool_args of
                 (Inl e, tr) \<Rightarrow> (Inl e, tr)
               | (Inr data, tr) \<Rightarrow> (Inr (envelope (JStr []) data), tr))
         else if truthy query
         then (case call_llm_with_tools l query of
                 Inl e \<Rightarrow> (Inl e, [SelectTool query])
               | Inr NoResponse \<Rightarrow> (Inr (error_dict ''Failed to process query''), [SelectTool query])
               | Inr (Response content tool_calls) \<Rightarrow>
                   if \<not> calls_truthy tool_calls
                   then (case content of
                           None \<Rightarrow> (Inl KeyError, [SelectTool query])
                         | Some c \<Rightarrow> (Inr (envelope (JStr c) (JObj [])), [SelectTool query]))
                   else
                     (case tool_calls of
                        OneCall tool_call \<Rightarrow>
                          (case json_loads b (function_arguments tool_call) of
                             None \<Rightarrow> (Inl JSONDecodeError, [SelectTool query])
                           | Some tool_call_args \<Rightarrow>
                              (case sol_handle_tool_logic b h (JStr (function_name tool_call))
                                      tool_call_args of
                                 (Inl e, tr) \<Rightarrow> (Inl e, SelectTool query # tr)
                               | (Inr data, tr) \<Rightarrow>
                                   if truthy raw_data_only
                                   then (Inr (envelope (JStr []) data), SelectTool query # tr)
                                   else
                                     (case call_llm l query (call_id tool_call) data of
                                        Inl e \<Rightarrow>
                                          (Inl e, SelectTool query # tr
                                                  @ [Narrate query (call_id tool_call) data])
                                      | Inr explanation \<Rightarrow>
                                          (Inr (envelope (JStr explanation) data),
                                           SelectTool query # tr
                                             @ [Narrate query (call_id tool_call) data]))))
                      | _ \<Rightarrow> (Inl AttributeError, [SelectTool query])))
         else (Inr missing_input, []))"

text \<open>
  \<open>handle_message\<close> of the wallet agent: \<open>except Exception\<close> turns every exception of the
  block into an error dict. The HTTP session it opens and closes around the block is not
  modelled.
\<close>

definition sol_handle_message :: "builtins \<Rightarrow> helius \<Rightarrow> llm \<Rightarrow> (string \<times> json) list
    \<Rightarrow> json \<times> event list" where
  "sol_handle_message b h l params =
     (case sol_handle_message_try b h l params of
        (Inl e, tr) \<Rightarrow> (error_dict (''Error handling message: '' @ exn_str b e), tr)
      | (Inr v, tr) \<Rightarrow> (v, tr))"

section \<open>Concrete upstream behaviours\<close>

text \<open>
  A wallet reply with three priced assets (the second mutable, the third worth exactly
  100) and a native balance worth 30.
\<close>

definition wallet_reply :: "real \<Rightarrow> json" where
  "wallet_reply v =
     JObj [(''result'', JObj [
       (''items'', JArr [
          JObj [(''id'', JStr ''MINT_A''),
                (''token_info'', JObj [(''symbol'', JStr ''AAA''),
                   (''price_info'', JObj [(''price_per_token'', JNum 2),
                                          (''total_price'', JNum v)])])],
          JObj [(''id'', JStr ''MINT_B''), (''mutable'', JBool True),
                (''token_info'', JObj [(''symbol'', JStr ''BBB''),
                   (''price_info'', JObj [(''price_per_token'', JNum 1),
                                          (''total_price'', JNum 500)])])],
          JObj [(''id'', JStr ''MINT_C''),
                (''token_info'', JObj [(''symbol'', JStr ''CCC''),
                   (''price_info'', JObj [(''price_per_token'', JNum 1),
                                          (''total_price'', JNum 100)])])]]),
       (''nativeBalance'', JObj [(''price_per_sol'', JNum 150), (''total_price'', JNum 30)])])]"

text \<open>A reply with the given native balance and items.\<close>

definition native_reply :: "json \<Rightarrow> json list \<Rightarrow> json" where
  "native_reply native_balance items =
     JObj [(''result'', JObj [(''items'', JArr items), (''nativeBalance'', native_balance)])]"

text \<open>
  Four holders, one of them the excluded protocol wallet; the request for \<open>w3\<close> fails.
  Three more wallets, which hold none of the token: the reply for \<open>w4\<close> has a string where
  the result object should be; the reply for \<open>w5\<close> has a native balance and one priced
  asset that lacks its \<open>id\<close>; the reply for \<open>w6\<close> has no asset and a native balance
  worth 0 that is flagged mutable; the reply for \<open>w7\<close> has no asset and a native balance
  whose prices are null.
\<close>

definition helius_ex :: helius where
  "helius_ex =
     \<lparr>search_assets = (\<lambda>owner.
          if owner = JStr ''w1'' then Inr (wallet_reply 300)
          else if owner = JStr ''w2'' then Inr (wallet_reply 200)
          else if owner = JStr ''w4'' then Inr (JObj [(''result'', JStr ''unavailable'')])
          else if owner = JStr ''w5''
          then Inr (native_reply
                      (JObj [(''lamports'', JNum 5), (''price_per_sol'', JNum 150),
                             (''total_price'', JNum 30)])
                      [JObj [(''token_info'', JObj [(''symbol'', JStr ''AAA''),
                         (''price_info'', JObj [(''price_per_token'', JNum 2),
                                                (''total_price'', JNum 300)])])]])
          else if owner = JStr ''w6''
          then Inr (native_reply
                      (JObj [(''lamports'', JNum 0), (''price_per_sol'', JNum 150),
                             (''total_price'', JNum 0), (''mutable'', JBool True)])
                      [])
          else if owner = JStr ''w7''
          then Inr (native_reply
                      (JObj [(''lamports'', JNum 5), (''price_per_sol'', JNull),
                             (''total_price'', JNull)])
                      [])
          else Inl ClientError),
      get_holders = (\<lambda>t n.
          [\<lparr>address = ''w1'', amount = 10, percentage = ''50.00''\<rparr>,
           \<lparr>address = raydium_address, amount = 6, percentage = ''30.00''\<rparr>,
           \<lparr>address = ''w2'', amount = 3, percentage = ''15.00''\<rparr>,
           \<lparr>address = ''w3'', amount = 1, percentage = ''5.00''\<rparr>]),
      get_tx_history = (\<lambda>owner. [])\<rparr>"

text \<open>The same indexer with three holders: \<open>w1\<close>, \<open>w2\<close> and \<open>w7\<close>.\<close>

definition helius_bad :: helius where
  "helius_bad =
     helius_ex\<lparr>get_holders := (\<lambda>t n.
          [\<lparr>address = ''w1'', amount = 10, percentage = ''50.00''\<rparr>,
           \<lparr>address = ''w2'', amount = 6, percentage = ''30.00''\<rparr>,
           \<lparr>address = ''w7'', amount = 4, percentage = ''20.00''\<rparr>])\<rparr>"

text \<open>
  Six holders, each with the same wallet: no asset besides a native balance worth 200.
\<close>

definition helius_six :: helius where
  "helius_six =
     \<lparr>search_assets = (\<lambda>owner.
          Inr (native_reply (JObj [(''price_per_sol'', JNum 150), (''total_price'', JNum 200)]) [])),
      get_holders = (\<lambda>t n.
          map (\<lambda>a. \<lparr>address = a, amount = 1, percentage = ''16.67''\<rparr>)
            [''v1'', ''v2'', ''v3'', ''v4'', ''v5'', ''v6'']),
      get_tx_history = (\<lambda>owner. [])\<rparr>"

text \<open>The holder record that the six-holder analysis builds for the wallet \<open>a\<close>.\<close>

definition six_holder :: "string \<Rightarrow> contribution" where
  "six_holder a = \<lparr>c_address = a, c_total_price = 200, c_percentage = ''16.67'',
      gmgn_link_owner_address = ''https://gmgn.ai/sol/address/'' @ a\<rparr>"

text \<open>
  \<open>float\<close> reads the two volume texts used below; \<open>json.loads\<close> reads three argument
  texts.
\<close>

definition builtins_ex :: builtins where
  "builtins_ex =
     \<lparr>float_of_str = (\<lambda>s. if s = ''10'' then Some 10 else if s = ''0'' then Some 0 else None),
      json_loads = (\<lambda>s.
          if s = ''ARGS_A'' then Some (JObj [(''token_address'', JStr ''MINT_A'')])
          else if s = ''ARGS_E'' then Some (JObj [(''token_address'', JStr ''MINT_E'')])
          else if s = ''ARGS_T'' then Some (JObj [(''token_address'', JStr ''T'')])
          else None),
      str_of_exn = (\<lambda>e. ''exception''),
      str_of_value = (\<lambda>v. ''value'')\<rparr>"

definition raw_bucket :: "string \<Rightarrow> real \<Rightarrow> real \<Rightarrow> real \<Rightarrow> real \<Rightarrow> string \<Rightarrow> json" where
  "raw_bucket t op hi lo cl vol =
     JObj [(''Block'', JObj [(''Time'', JStr t)]), (''open'', JNum op), (''max'', JNum hi),
           (''min'', JNum lo), (''close'', JNum cl), (''volume'', JStr vol)]"

definition trades_reply :: "json list \<Rightarrow> http_reply" where
  "trades_reply buckets =
     HttpResponse 200 []
       (Some (JObj [(''data'', JObj [(''Solana'', JObj [(''DEXTradeByTokens'', JArr buckets)])])]))"

text \<open>
  \<open>MINT_A\<close> has three buckets, delivered out of order; \<open>MINT_Z\<close> has two buckets, the
  first of which opens at 0; \<open>MINT_N\<close> has two buckets, the second without a \<open>close\<close>;
  \<open>MINT_E\<close> has none; any other request is answered with status 500.
\<close>

definition bitquery_ex :: bitquery where
  "bitquery_ex =
     \<lparr>post_trades = (\<lambda>a.
          if a = JStr ''MINT_A''
          then trades_reply [raw_bucket ''2024-01-01T00:10:00Z'' 1 1 1 (11 / 10) ''10'',
                             raw_bucket ''2024-01-01T00:00:00Z'' 1 1 1 1 ''10'',
                             raw_bucket ''2024-01-01T00:05:00Z'' 1 (12 / 10) (9 / 10) 1 ''10'']
          else if a = JStr ''MINT_Z''
          then trades_reply [raw_bucket ''2024-01-01T00:00:00Z'' 0 3 0 2 ''10'',
                             raw_bucket ''2024-01-01T00:05:00Z'' 2 4 1 3 ''0'']
          else if a = JStr ''MINT_N''
          then trades_reply [raw_bucket ''2024-01-01T00:00:00Z'' 1 1 1 1 ''10'',
                             JObj [(''Block'', JObj [(''Time'', JStr ''2024-01-01T00:05:00Z'')]),
                                   (''open'', JNum 1), (''max'', JNum 1), (''min'', JNum 1),
                                   (''volume'', JStr ''10'')]]
          else if a = JStr ''MINT_E'' then trades_reply []
          else HttpResponse 500 ''Internal Server Error'' None),
      top_ten_trending_tokens = Inr (JArr []),
      utcnow_isoformat = ''2024-01-01T00:12:00''\<rparr>"

text \<open>
  A language model that selects \<open>get_token_trading_info\<close> for two queries, a tool that
  neither agent has for a third, \<open>analyze_sol_token_holders\<close> for a fourth, answers any
  other query in free text, and narrates every result as \<open>narration\<close>.
\<close>

definition llm_ex :: llm where
  "llm_ex =
     \<lparr>call_llm_with_tools = (\<lambda>query.
          if query = JStr ''price of MINT_A''
          then Inr (Response None (CallList [ToolCall ''call_1'' ''get_token_trading_info'' ''ARGS_A'']))
          else if query = JStr ''price of MINT_E''
          then Inr (Response None (CallList [ToolCall ''call_2'' ''get_token_trading_info'' ''ARGS_E'']))
          else if query = JStr ''swap it''
          then Inr (Response None (OneCall (ToolCall ''call_3'' ''swap_tokens'' ''ARGS_A'')))
          else if query = JStr ''holders of T''
          then Inr (Response None (OneCall (ToolCall ''call_4'' ''analyze_sol_token_holders'' ''ARGS_T'')))
          else Inr (Response (Some ''hello'') NoCalls)),
      call_llm = (\<lambda>query tool_call_id data. Inr ''narration'')\<rparr>"

section \<open>Notions of the specification\<close>

text \<open>
  The response envelope in the specification's words: an object with a \<open>response\<close> field
  of string type and a \<open>data\<close> field of object type.
\<close>

definition is_response_envelope :: "json \<Rightarrow> bool" where
  "is_response_envelope v =
     (case v of
        JObj kvs \<Rightarrow>
          (case (map_of kvs ''response'', map_of kvs ''data'') of
             (Some (JStr r), Some (JObj d)) \<Rightarrow> True
           | _ \<Rightarrow> False)
      | _ \<Rightarrow> False)"

text \<open>An object that carries an \<open>error\<close> key.\<close>

definition has_error :: "json \<Rightarrow> bool" where
  "has_error v = (case v of JObj kvs \<Rightarrow> map_of kvs ''error'' \<noteq> None | _ \<Rightarrow> False)"

text \<open>
  A completion order of \<open>n\<close> concurrent tasks: every task completes exactly once.
\<close>

definition completion_order :: "nat \<Rightarrow> nat list \<Rightarrow> bool" where
  "completion_order n completion \<longleftrightarrow> distinct completion \<and> set completion = {0..<n}"

text \<open>
  All holder records that contribute to the token of address \<open>addr\<close>: for each top
  holder in turn, one record for each asset of that token in the holder's wallet.
\<close>

definition all_contributions :: "helius \<Rightarrow> json \<Rightarrow> json \<Rightarrow> json \<Rightarrow> contribution list" where
  "all_contributions h t n addr =
     concat (map (\<lambda>hr. map (\<lambda>token. contribution_of hr (num_val (total_price token)))
                          (filter (\<lambda>token. hash_key (token_address token) = hash_key addr)
                             (get_wallet_assets h (JStr (address hr)))))
                 (top_holders_of (get_holders h t n)))"

text \<open>
  The same over a list of (holder, asset) pairs already merged, by dict key; and the state
  of \<open>token_map\<close> after merging such a list: one entry per key seen, holding the key's
  holder records and their total.
\<close>

definition contributions_in :: "(holder \<times> holding) list \<Rightarrow> json \<Rightarrow> contribution list" where
  "contributions_in ps k =
     map (\<lambda>p. contribution_of (fst p) (num_val (total_price (snd p))))
       (filter (\<lambda>p. hash_key (token_address (snd p)) = Inr k) ps)"

definition merged :: "(json \<times> aggregate) list \<Rightarrow> (holder \<times> holding) list \<Rightarrow> bool" where
  "merged m ps \<longleftrightarrow>
     distinct (map fst m)
     \<and> (\<forall>k. k \<notin> fst ` set m \<longrightarrow> contributions_in ps k = [])
     \<and> (\<forall>k a. (k, a) \<in> set m \<longrightarrow>
          hash_key (a_token_address a) = Inr k
          \<and> holders a = contributions_in ps k
          \<and> total_holding_value a = sum_list (map c_total_price (holders a)))"

text \<open>
  The asset fetch for an owner fails: the request raises (a transport error, a timeout),
  or processing its reply raises.
\<close>

definition fetch_raises :: "helius \<Rightarrow> json \<Rightarrow> bool" where
  "fetch_raises h owner =
     (case ebind (search_assets h owner) wallet_assets_of of Inl e \<Rightarrow> True | Inr hs \<Rightarrow> False)"

text \<open>
  The tool call that a handler takes from a truthy \<open>tool_calls\<close> value: the token-info
  agent takes the first element of a list and otherwise the object itself; the wallet
  agent can only use a single tool-call object.
\<close>

fun first_call :: "calls \<Rightarrow> tool_call option" where
  "first_call NoCalls = None"
| "first_call (OneCall c) = Some c"
| "first_call (CallList []) = None"
| "first_call (CallList (c # cs)) = Some c"

text \<open>The indexer with every holder of address \<open>a\<close> left out of the holder lists.\<close>

definition without_holder :: "string \<Rightarrow> helius \<Rightarrow> helius" where
  "without_holder a h =
     h\<lparr>get_holders := (\<lambda>t n. filter (\<lambda>hr. address hr \<noteq> a) (get_holders h t n))\<rparr>"

text \<open>A bucket all of whose prices and whose volume are numbers.\<close>

definition numeric_bucket :: "bucket \<Rightarrow> bool" where
  "numeric_bucket x \<longleftrightarrow>
     num_of (open_price x) \<noteq> None \<and> num_of (high_price x) \<noteq> None
     \<and> num_of (low_price x) \<noteq> None \<and> num_of (close_price x) \<noteq> None
     \<and> num_of (volume x) \<noteq> None"

section \<open>Properties of the holder analysis\<close>

lemma sorted_desc_sorted:
  "sorted_wrt (\<lambda>x y. f y \<le> f x) (sorted_desc f xs)"
proof -
  have "sorted (map f (sort_key f (rev xs)))" by simp
  then have "sorted_wrt (\<lambda>x y. f x \<le> f y) (sort_key f (rev xs))"
    by (simp add: sorted_map)
  then show ?thesis
    by (simp add: sorted_desc_def sorted_wrt_rev)
qed

lemma sorted_wrt_take: "sorted_wrt P xs \<Longrightarrow> sorted_wrt P (take n xs)"
  by (induction xs arbitrary: n) (auto simp: take_Cons' dest: in_set_takeD)

lemma rank_holders_value [simp]:
  "total_holding_value (rank_holders a) = total_holding_value a"
  by (simp add: rank_holders_def)

lemma rank_tokens_length: "length (rank_tokens m) \<le> 5"
  by (simp add: rank_tokens_def)

lemma rank_tokens_sorted:
  "sorted_wrt (\<lambda>a b. total_holding_value b \<le> total_holding_value a) (rank_tokens m)"
  unfolding rank_tokens_def
  by (simp add: sorted_wrt_map sorted_wrt_take sorted_desc_sorted)

lemma rank_tokens_holders:
  assumes "a \<in> set (rank_tokens m)"
  shows "length (holders a) \<le> 5
     \<and> sorted_wrt (\<lambda>x y. c_total_price y \<le> c_total_price x) (holders a)"
proof -
  from assms obtain b where "a = rank_holders b"
    by (auto simp: rank_tokens_def)
  then show ?thesis
    by (simp add: rank_holders_def sorted_wrt_take sorted_desc_sorted)
qed

lemma analyze_results_cases:
  "analyze_results hs rs = [] \<or> (\<exists>m. analyze_results hs rs = rank_tokens m)"
  by (auto simp: analyze_results_def split: sum.splits)

lemma analyze_holders_cases:
  "analyze_holders h t n = [] \<or> (\<exists>m. analyze_holders h t n = rank_tokens m)"
  using analyze_results_cases
  by (auto simp: analyze_holders_def Let_def)



section \<open>Properties of the trade buckets and their summary\<close>

lemma ebind_Inr: "ebind m f = Inr y \<Longrightarrow> \<exists>x. m = Inr x \<and> f x = Inr y"
  by (cases m) (simp_all add: ebind_def)

lemma ebind_simps [simp]: "ebind (Inl e) f = Inl e" "ebind (Inr x) f = f x"
  by (simp_all add: ebind_def)

lemma py_lt_Inr:
  "py_lt a b = Inr t \<longleftrightarrow>
     (\<exists>x y. num_of a = Some x \<and> num_of b = Some y \<and> t = (x < y))
     \<or> (\<exists>s u. str_of a = Some s \<and> str_of b = Some u \<and> t = (s < u))"
  by (cases a; cases b) (auto simp: py_lt_def)

lemma py_lt_asym: "py_lt a b = Inr True \<Longrightarrow> py_lt b a = Inr False"
  unfolding py_lt_Inr by (cases a; cases b) auto

lemma py_lt_trans_ge:
  "py_lt a b = Inr False \<Longrightarrow> py_lt b c = Inr False \<Longrightarrow> py_lt a c = Inr False"
  unfolding py_lt_Inr by (cases a; cases b; cases c) auto

lemma py_lt_irrefl: "py_lt a a \<noteq> Inr True"
  unfolding py_lt_Inr by (cases a) auto

lemma sort_by_time_sorted:
  assumes "sort_by_time xs = Inr ys"
  shows "sorted_wrt (\<lambda>x y. py_lt (time_bucket y) (time_bucket x) = Inr False) ys"
proof (cases "length xs \<le> 1")
  case True
  with assms have "ys = xs" by (simp add: sort_by_time_def)
  moreover from True have "xs = [] \<or> (\<exists>x. xs = [x])"
    by (cases xs) auto
  ultimately show ?thesis by auto
next
  case False
  show ?thesis
  proof (cases "list_all (\<lambda>x. num_of (time_bucket x) \<noteq> None) xs")
    case True
    with False assms have ys: "ys = sort_key (\<lambda>x. num_val (time_bucket x)) xs"
      by (simp add: sort_by_time_def)
    have nums: "\<forall>x \<in> set ys. num_of (time_bucket x) = Some (num_val (time_bucket x))"
    proof
      fix x assume "x \<in> set ys"
      with ys True have "num_of (time_bucket x) \<noteq> None" by (auto simp: list_all_iff)
      then show "num_of (time_bucket x) = Some (num_val (time_bucket x))"
        by (cases "time_bucket x") auto
    qed
    have "sorted (map (\<lambda>x. num_val (time_bucket x)) ys)"
      unfolding ys by (rule sorted_sort_key)
    then have "sorted_wrt (\<lambda>x y. num_val (time_bucket x) \<le> num_val (time_bucket y)) ys"
      by (simp add: sorted_map)
    then show ?thesis
      by (rule sorted_wrt_mono_rel [rotated]) (use nums in \<open>auto simp: py_lt_Inr\<close>)
  next
    case notnum: False
    show ?thesis
    proof (cases "list_all (\<lambda>x. str_of (time_bucket x) \<noteq> None) xs")
      case True
      with False notnum assms have ys: "ys = sort_key (\<lambda>x. str_val (time_bucket x)) xs"
        by (simp add: sort_by_time_def)
      have strs: "\<forall>x \<in> set ys. str_of (time_bucket x) = Some (str_val (time_bucket x))"
      proof
        fix x assume "x \<in> set ys"
        with ys True have "str_of (time_bucket x) \<noteq> None" by (auto simp: list_all_iff)
        then show "str_of (time_bucket x) = Some (str_val (time_bucket x))"
          by (cases "time_bucket x") auto
      qed
      have "sorted (map (\<lambda>x. str_val (time_bucket x)) ys)"
        unfolding ys by (rule sorted_sort_key)
      then have "sorted_wrt (\<lambda>x y. str_val (time_bucket x) \<le> str_val (time_bucket y)) ys"
        by (simp add: sorted_map)
      then show ?thesis
        by (rule sorted_wrt_mono_rel [rotated]) (use strs in \<open>auto simp: py_lt_Inr\<close>)
    next
      case False
      with \<open>\<not> length xs \<le> 1\<close> notnum assms show ?thesis
        by (simp add: sort_by_time_def)
    qed
  qed
qed

text \<open>
  C7. Whenever \<open>fetch_and_organize_dex_trade_data\<close> returns a bucket sequence, the sequence
  is sorted non-decreasing by \<open>time\<close>: no bucket's time is less than the time of a bucket
  before it.
\<close>

theorem organize_trades_sorted:
  assumes "fetch_and_organize_dex_trade_data b q a = Inr bs"
  shows "sorted_wrt (\<lambda>x y. py_lt (time_bucket y) (time_bucket x) = Inr False) bs"
proof -
  from assms obtain xs where "sort_by_time xs = Inr bs"
    by (auto simp: fetch_and_organize_dex_trade_data_def
             split: http_reply.splits if_splits option.splits sum.splits
             dest!: ebind_Inr)
  then show ?thesis by (rule sort_by_time_sorted)
qed



lemma py_max_from_max:
  "py_max_from m xs = Inr r \<Longrightarrow>
     r \<in> set (m # xs) \<and> (\<forall>x \<in> set (m # xs). r = x \<or> py_lt r x = Inr False)"
proof (induction xs arbitrary: m)
  case Nil
  then show ?case by simp
next
  case (Cons x xs)
  from Cons.prems obtain t where t: "py_lt m x = Inr t"
    and rec: "py_max_from (if t then x else m) xs = Inr r"
    by (auto dest!: ebind_Inr)
  from Cons.IH [OF rec]
  have mem: "r \<in> set ((if t then x else m) # xs)"
    and top: "\<forall>y \<in> set ((if t then x else m) # xs). r = y \<or> py_lt r y = Inr False"
    by blast+
  show ?case
  proof (cases t)
    case True
    with t have xm: "py_lt x m = Inr False" by (simp add: py_lt_asym)
    from top True have rx: "r = x \<or> py_lt r x = Inr False" by simp
    then have "r = m \<or> py_lt r m = Inr False"
      using xm py_lt_trans_ge by blast
    with mem top True show ?thesis by auto
  next
    case False
    with t have mx: "py_lt m x = Inr False" by simp
    from top False have rm: "r = m \<or> py_lt r m = Inr False" by simp
    then have "r = x \<or> py_lt r x = Inr False"
      using mx py_lt_trans_ge by blast
    with mem top False show ?thesis by auto
  qed
qed

lemma py_max_greatest:
  assumes "py_max xs = Inr r"
  shows "r \<in> set xs \<and> (\<forall>x \<in> set xs. py_lt r x \<noteq> Inr True)"
proof (cases xs)
  case Nil
  with assms show ?thesis by simp
next
  case (Cons m ys)
  with assms have "py_max_from m ys = Inr r" by simp
  from py_max_from_max [OF this] Cons show ?thesis
    using py_lt_irrefl by fastforce
qed

lemma py_min_from_min:
  "py_min_from m xs = Inr r \<Longrightarrow>
     r \<in> set (m # xs) \<and> (\<forall>x \<in> set (m # xs). r = x \<or> py_lt x r = Inr False)"
proof (induction xs arbitrary: m)
  case Nil
  then show ?case by simp
next
  case (Cons x xs)
  from Cons.prems obtain t where t: "py_lt x m = Inr t"
    and rec: "py_min_from (if t then x else m) xs = Inr r"
    by (auto dest!: ebind_Inr)
  from Cons.IH [OF rec]
  have mem: "r \<in> set ((if t then x else m) # xs)"
    and low: "\<forall>y \<in> set ((if t then x else m) # xs). r = y \<or> py_lt y r = Inr False"
    by blast+
  show ?case
  proof (cases t)
    case True
    with t have mx: "py_lt m x = Inr False" by (simp add: py_lt_asym)
    from low True have rx: "r = x \<or> py_lt x r = Inr False" by simp
    then have "r = m \<or> py_lt m r = Inr False"
      using mx py_lt_trans_ge by blast
    with mem low True show ?thesis by auto
  next
    case False
    with t have xm: "py_lt x m = Inr False" by simp
    from low False have rm: "r = m \<or> py_lt m r = Inr False" by simp
    then have "r = x \<or> py_lt x r = Inr False"
      using xm py_lt_trans_ge by blast
    with mem low False show ?thesis by auto
  qed
qed

lemma py_min_least:
  assumes "py_min xs = Inr r"
  shows "r \<in> set xs \<and> (\<forall>x \<in> set xs. py_lt x r \<noteq> Inr True)"
proof (cases xs)
  case Nil
  with assms show ?thesis by simp
next
  case (Cons m ys)
  with assms have "py_min_from m ys = Inr r" by simp
  from py_min_from_min [OF this] Cons show ?thesis
    using py_lt_irrefl by fastforce
qed

lemma py_arith_Inr:
  "py_arith f a b = Inr r \<longleftrightarrow> (\<exists>x y. num_of a = Some x \<and> num_of b = Some y \<and> r = JNum (f x y))"
  by (auto simp: py_arith_def split: option.splits)

lemma py_div_Inr:
  "py_div a b = Inr r \<longleftrightarrow>
     (\<exists>x y. num_of a = Some x \<and> num_of b = Some y \<and> y \<noteq> 0 \<and> r = JNum (x / y))"
  by (auto simp: py_div_def split: option.splits)

lemma num_of_num_val: "num_of v = Some x \<Longrightarrow> num_val v = x"
  by (cases v) auto

lemma py_sum_from_sum:
  "py_sum_from (JNum a) xs = Inr r \<Longrightarrow>
     (\<forall>x \<in> set xs. num_of x \<noteq> None) \<and> r = JNum (a + sum_list (map num_val xs))"
proof (induction xs arbitrary: a)
  case Nil
  then show ?case by simp
next
  case (Cons x xs)
  from Cons.prems obtain y where y: "num_of x = Some y"
    and rec: "py_sum_from (JNum (a + y)) xs = Inr r"
    by (auto dest!: ebind_Inr simp: py_arith_Inr)
  from Cons.IH [OF rec] y show ?case
    by (auto simp: num_of_num_val add.assoc)
qed

lemma py_sum_sum:
  "py_sum xs = Inr r \<Longrightarrow>
     (\<forall>x \<in> set xs. num_of x \<noteq> None) \<and> r = JNum (sum_list (map num_val xs))"
  using py_sum_from_sum [of 0 xs r] by (simp add: py_sum_def)


lemma py_lt_num: "num_of a = Some x \<Longrightarrow> num_of b = Some y \<Longrightarrow> py_lt a b = Inr (x < y)"
  by (simp add: py_lt_def)

lemma py_max_from_total:
  "\<forall>x \<in> set (m # xs). num_of x \<noteq> None \<Longrightarrow> \<exists>r. py_max_from m xs = Inr r"
proof (induction xs arbitrary: m)
  case Nil
  then show ?case by simp
next
  case (Cons x xs)
  then obtain a c where "num_of m = Some a" "num_of x = Some c" by auto
  then have "py_lt m x = Inr (a < c)" by (rule py_lt_num)
  moreover from Cons.prems have "\<forall>y \<in> set ((if a < c then x else m) # xs). num_of y \<noteq> None"
    by auto
  from Cons.IH [OF this] obtain r where "py_max_from (if a < c then x else m) xs = Inr r" ..
  ultimately show ?case by simp
qed

lemma py_min_from_total:
  "\<forall>x \<in> set (m # xs). num_of x \<noteq> None \<Longrightarrow> \<exists>r. py_min_from m xs = Inr r"
proof (induction xs arbitrary: m)
  case Nil
  then show ?case by simp
next
  case (Cons x xs)
  then obtain a c where "num_of m = Some a" "num_of x = Some c" by auto
  then have "py_lt x m = Inr (c < a)" by (simp add: py_lt_num)
  moreover from Cons.prems have "\<forall>y \<in> set ((if c < a then x else m) # xs). num_of y \<noteq> None"
    by auto
  from Cons.IH [OF this] obtain r where "py_min_from (if c < a then x else m) xs = Inr r" ..
  ultimately show ?case by simp
qed

lemma py_sum_from_total:
  "\<forall>x \<in> set xs. num_of x \<noteq> None \<Longrightarrow> \<exists>r. py_sum_from (JNum a) xs = Inr r"
proof (induction xs arbitrary: a)
  case Nil
  then show ?case by simp
next
  case (Cons x xs)
  then obtain c where "num_of x = Some c" by auto
  then have "py_arith (+) (JNum a) x = Inr (JNum (a + c))" by (simp add: py_arith_def)
  moreover from Cons obtain r where "py_sum_from (JNum (a + c)) xs = Inr r" by auto
  ultimately show ?case by simp
qed

lemma ebind_ne: "m \<noteq> Inl e \<Longrightarrow> (\<And>x. g x \<noteq> Inl e) \<Longrightarrow> ebind m g \<noteq> Inl e"
  by (cases m) simp_all

lemma derive_summary_no_zero_division: "derive_summary q td \<noteq> Inl ZeroDivisionError"
proof (cases td)
  case Nil
  then show ?thesis by simp
next
  case (Cons f rest)
  have sum_ne: "py_sum xs \<noteq> Inl ZeroDivisionError" for xs
  proof -
    have "py_sum_from acc xs \<noteq> Inl ZeroDivisionError" for acc
      by (induction xs arbitrary: acc)
         (auto simp: ebind_def py_arith_def split: sum.splits option.splits)
    then show ?thesis by (simp add: py_sum_def)
  qed
  have max_ne: "py_max xs \<noteq> Inl ZeroDivisionError" for xs
  proof -
    have "py_max_from m ys \<noteq> Inl ZeroDivisionError" for m ys
      by (induction ys arbitrary: m)
         (auto simp: ebind_def py_lt_def split: sum.splits option.splits)
    then show ?thesis by (cases xs) auto
  qed
  have min_ne: "py_min xs \<noteq> Inl ZeroDivisionError" for xs
  proof -
    have "py_min_from m ys \<noteq> Inl ZeroDivisionError" for m ys
      by (induction ys arbitrary: m)
         (auto simp: ebind_def py_lt_def split: sum.splits option.splits)
    then show ?thesis by (cases xs) auto
  qed
  have div_ne: "py_ne_zero d \<Longrightarrow> py_div n d \<noteq> Inl ZeroDivisionError" for n d
    by (auto simp: py_ne_zero_def py_div_def split: option.splits)
  have ar_ne: "py_arith g x y \<noteq> Inl ZeroDivisionError" for g x y
    by (auto simp: py_arith_def split: option.splits)
  have pct_ne: "(if py_ne_zero d then ebind (py_div n d) (\<lambda>r. py_arith (*) r (JNum 100))
                 else Inr (JNum 0)) \<noteq> Inl ZeroDivisionError" for n d
    by (simp add: ebind_ne div_ne ar_ne)
  show ?thesis
    unfolding Cons derive_summary.simps Let_def
    by (intro ebind_ne ar_ne sum_ne max_ne min_ne pct_ne) simp
qed


lemma ebind_InrE:
  assumes "ebind m f = Inr y"
  obtains x where "m = Inr x" and "f x = Inr y"
  using assms by (cases m) simp_all

lemma derive_summary_Inr:
  assumes "derive_summary q td = Inr s"
  shows "\<exists>c op. num_of (close_price (last td)) = Some c
           \<and> num_of (open_price (hd td)) = Some op
           \<and> current_price s = close_price (last td)
           \<and> price_change_1h s = JNum (c - op)
           \<and> price_change_percentage_1h s = JNum (if op = 0 then 0 else (c - op) / op * 100)
           \<and> highest_price_1h s \<in> set (map high_price td)
           \<and> (\<forall>x \<in> set td. py_lt (highest_price_1h s) (high_price x) \<noteq> Inr True)
           \<and> lowest_price_1h s \<in> set (map low_price td)
           \<and> (\<forall>x \<in> set td. py_lt (low_price x) (lowest_price_1h s) \<noteq> Inr True)
           \<and> (\<forall>x \<in> set td. num_of (volume x) \<noteq> None)
           \<and> total_volume_1h s = JNum (sum_list (map (\<lambda>x. num_val (volume x)) td))"
proof (cases td)
  case Nil
  with assms show ?thesis by simp
next
  case (Cons f rest)
  let ?latest = "last (f # rest)"
  from assms have "ebind (py_arith (-) (close_price ?latest) (open_price f)) (\<lambda>price_change.
         ebind (if py_ne_zero (open_price f)
                then ebind (py_div price_change (open_price f)) (\<lambda>r.
                       py_arith (*) r (JNum 100))
                else Inr (JNum 0)) (\<lambda>price_change_percent.
         ebind (py_sum (map volume (f # rest))) (\<lambda>total_volume.
         ebind (py_max (map high_price (f # rest))) (\<lambda>highest.
         ebind (py_min (map low_price (f # rest))) (\<lambda>lowest.
           Inr \<lparr>current_price = close_price ?latest,
                price_change_1h = price_change,
                price_change_percentage_1h = price_change_percent,
                highest_price_1h = highest,
                lowest_price_1h = lowest,
                total_volume_1h = total_volume,
                last_updated = utcnow_isoformat q\<rparr>))))) = Inr s"
    unfolding Cons derive_summary.simps Let_def .
  then obtain pc pct tv hi lo where
    pc: "py_arith (-) (close_price ?latest) (open_price f) = Inr pc" and
    pct: "(if py_ne_zero (open_price f)
           then ebind (py_div pc (open_price f)) (\<lambda>r. py_arith (*) r (JNum 100))
           else Inr (JNum 0)) = Inr pct" and
    tv: "py_sum (map volume (f # rest)) = Inr tv" and
    hi: "py_max (map high_price (f # rest)) = Inr hi" and
    lo: "py_min (map low_price (f # rest)) = Inr lo" and
    s: "s = \<lparr>current_price = close_price ?latest, price_change_1h = pc,
             price_change_percentage_1h = pct, highest_price_1h = hi,
             lowest_price_1h = lo, total_volume_1h = tv,
             last_updated = utcnow_isoformat q\<rparr>"
    by (elim ebind_InrE) (simp only: sum.inject)
  from pc obtain c op where c: "num_of (close_price ?latest) = Some c"
    and op: "num_of (open_price f) = Some op" and pcv: "pc = JNum (c - op)"
    by (auto simp: py_arith_Inr)
  have pctv: "pct = JNum (if op = 0 then 0 else (c - op) / op * 100)"
  proof (cases "op = 0")
    case True
    with op pct show ?thesis by (simp add: py_ne_zero_def)
  next
    case False
    with op have "py_ne_zero (open_price f)" by (simp add: py_ne_zero_def)
    with pct obtain r where "py_div pc (open_price f) = Inr r"
      and "py_arith (*) r (JNum 100) = Inr pct"
      by (auto elim: ebind_InrE)
    with op pcv False show ?thesis
      by (auto simp: py_div_Inr py_arith_Inr)
  qed
  from py_max_greatest [OF hi] py_min_least [OF lo] py_sum_sum [OF tv]
  show ?thesis
    unfolding Cons using c op pcv pctv s
    by (simp add: comp_def)
qed

lemma derive_summary_total:
  assumes "td \<noteq> []" and "list_all numeric_bucket td"
  shows "\<exists>s. derive_summary q td = Inr s"
proof -
  from assms obtain f rest where td: "td = f # rest" by (cases td) auto
  have nb: "\<forall>x \<in> set (f # rest). numeric_bucket x"
    using assms td by (simp add: list_all_iff)
  have "last (f # rest) \<in> set (f # rest)" by (rule last_in_set) simp
  with nb have "numeric_bucket (last (f # rest))" by blast
  then obtain c where c: "num_of (close_price (last (f # rest))) = Some c"
    by (auto simp: numeric_bucket_def)
  from nb obtain op where op: "num_of (open_price f) = Some op"
    by (auto simp: numeric_bucket_def)
  have pc: "py_arith (-) (close_price (last (f # rest))) (open_price f) = Inr (JNum (c - op))"
    using c op by (simp add: py_arith_def)
  have "\<exists>pct. (if py_ne_zero (open_price f)
           then ebind (py_div (JNum (c - op)) (open_price f)) (\<lambda>r. py_arith (*) r (JNum 100))
           else Inr (JNum 0)) = Inr pct"
    using op by (auto simp: py_ne_zero_def py_div_def py_arith_def)
  then obtain pct where pct: "(if py_ne_zero (open_price f)
           then ebind (py_div (JNum (c - op)) (open_price f)) (\<lambda>r. py_arith (*) r (JNum 100))
           else Inr (JNum 0)) = Inr pct" ..
  from nb have "\<forall>x \<in> set (map volume (f # rest)). num_of x \<noteq> None"
    by (auto simp: numeric_bucket_def)
  from py_sum_from_total [OF this, of 0]
  obtain tv where tv: "py_sum (map volume (f # rest)) = Inr tv"
    by (auto simp: py_sum_def)
  from nb have "\<forall>x \<in> set (high_price f # map high_price rest). num_of x \<noteq> None"
    by (auto simp: numeric_bucket_def)
  from py_max_from_total [OF this]
  obtain hi where hi: "py_max (map high_price (f # rest)) = Inr hi" by auto
  from nb have "\<forall>x \<in> set (low_price f # map low_price rest). num_of x \<noteq> None"
    by (auto simp: numeric_bucket_def)
  from py_min_from_total [OF this]
  obtain lo where lo: "py_min (map low_price (f # rest)) = Inr lo" by auto
  show ?thesis
    unfolding td derive_summary.simps Let_def
    by (simp only: pc pct tv hi lo ebind_simps) blast
qed

theorem organize_trades_sorted_witness:
  "fetch_and_organize_dex_trade_data builtins_ex bitquery_ex (JStr ''MINT_A'') =
     Inr [\<lparr>time_bucket = JStr ''2024-01-01T00:00:00Z'', open_price = JNum 1,
            high_price = JNum 1, low_price = JNum 1, close_price = JNum 1,
            volume = JNum 10\<rparr>,
          \<lparr>time_bucket = JStr ''2024-01-01T00:05:00Z'', open_price = JNum 1,
            high_price = JNum (6 / 5), low_price = JNum (9 / 10),
            close_price = JNum 1, volume = JNum 10\<rparr>,
          \<lparr>time_bucket = JStr ''2024-01-01T00:10:00Z'', open_price = JNum 1,
            high_price = JNum 1, low_price = JNum 1,
            close_price = JNum (11 / 10), volume = JNum 10\<rparr>]
   \<and> sorted_wrt (\<lambda>x y. py_lt (time_bucket y) (time_bucket x) = Inr False)
        [\<lparr>time_bucket = JStr ''2024-01-01T00:00:00Z'', open_price = JNum 1,
            high_price = JNum 1, low_price = JNum 1, close_price = JNum 1,
            volume = JNum 10\<rparr>,
          \<lparr>time_bucket = JStr ''2024-01-01T00:05:00Z'', open_price = JNum 1,
            high_price = JNum (6 / 5), low_price = JNum (9 / 10),
            close_price = JNum 1, volume = JNum 10\<rparr>,
          \<lparr>time_bucket = JStr ''2024-01-01T00:10:00Z'', open_price = JNum 1,
            high_price = JNum 1, low_price = JNum 1,
            close_price = JNum (11 / 10), volume = JNum 10\<rparr>]"
proof -
  have fetched: "fetch_and_organize_dex_trade_data builtins_ex bitquery_ex (JStr ''MINT_A'') =
     Inr [\<lparr>time_bucket = JStr ''2024-01-01T00:00:00Z'', open_price = JNum 1,
            high_price = JNum 1, low_price = JNum 1, close_price = JNum 1,
            volume = JNum 10\<rparr>,
          \<lparr>time_bucket = JStr ''2024-01-01T00:05:00Z'', open_price = JNum 1,
            high_price = JNum (6 / 5), low_price = JNum (9 / 10),
            close_price = JNum 1, volume = JNum 10\<rparr>,
          \<lparr>time_bucket = JStr ''2024-01-01T00:10:00Z'', open_price = JNum 1,
            high_price = JNum 1, low_price = JNum 1,
            close_price = JNum (11 / 10), volume = JNum 10\<rparr>]"
    by code_simp
  from organize_trades_sorted [OF fetched] fetched show ?thesis by (rule_tac conjI)
qed


lemma py_lt_nums:
  "num_of a \<noteq> None \<Longrightarrow> num_of b \<noteq> None \<Longrightarrow> py_lt a b = Inr (num_val a < num_val b)"
  by (cases a; cases b) (simp_all add: py_lt_def)



section \<open>Properties of the request dispatch\<close>

text \<open>
  C8. When neither an operation name nor a query is supplied (the key is absent or its
  value is falsy), \<open>handle_message\<close> of either agent returns the missing-input error and
  does nothing else: no operation is invoked and the language model is not called.
\<close>

theorem missing_input_error:
  assumes "\<not> truthy (param params ''tool'' JNull)"
    and "\<not> truthy (param params ''query'' JNull)"
  shows "bitquery_handle_message b q l params =
           (Inr (JObj [(''error'',
              JStr ''Either 'query' or 'tool' must be provided in the parameters.'')]), [])
       \<and> sol_handle_message b h l params =
           (JObj [(''error'',
              JStr ''Either 'query' or 'tool' must be provided in the parameters.'')], [])"
  using assms
  by (simp add: bitquery_handle_message_def sol_handle_message_def sol_handle_message_try_def
        missing_input_def error_dict_def)

theorem missing_input_error_witness:
  "\<not> truthy (param [(''query'', JStr [])] ''tool'' JNull)
   \<and> \<not> truthy (param [(''query'', JStr [])] ''query'' JNull)
   \<and> bitquery_handle_message builtins_ex bitquery_ex llm_ex [(''query'', JStr [])] =
           (Inr (JObj [(''error'',
              JStr ''Either 'query' or 'tool' must be provided in the parameters.'')]), [])
   \<and> sol_handle_message builtins_ex helius_ex llm_ex [(''query'', JStr [])] =
           (JObj [(''error'',
              JStr ''Either 'query' or 'tool' must be provided in the parameters.'')], [])"
proof -
  have a: "\<not> truthy (param [(''query'', JStr [])] ''tool'' JNull)"
    by (simp add: param_def)
  have b: "\<not> truthy (param [(''query'', JStr [])] ''query'' JNull)"
    by (simp add: param_def)
  from missing_input_error [OF a b, of builtins_ex bitquery_ex llm_ex helius_ex] a b
  show ?thesis by blast
qed

text \<open>
  C1 as stated fails: with \<open>raw_data_only\<close> false, both agents hand an error result to
  the narration step. Here the trade fetch finds no bucket, and the wallet agent is asked
  for a tool it does not have.
\<close>

theorem narration_on_error_counterexample:
  "get_token_trading_info builtins_ex bitquery_ex (JStr ''MINT_E'')
     = JObj [(''error'', JStr ''No trading data available'')]
   \<and> bitquery_handle_message builtins_ex bitquery_ex llm_ex [(''query'', JStr ''price of MINT_E'')]
     = (Inr (JObj [(''response'', JStr ''narration''),
                   (''data'', JObj [(''error'', JStr ''No trading data available'')])]),
        [SelectTool (JStr ''price of MINT_E''),
         Invoke ''get_token_trading_info'' [JStr ''MINT_E''],
         Narrate (JStr ''price of MINT_E'') ''call_2''
           (JObj [(''error'', JStr ''No trading data available'')])])
   \<and> sol_handle_message builtins_ex helius_ex llm_ex [(''query'', JStr ''swap it'')]
     = (JObj [(''response'', JStr ''narration''),
              (''data'', JObj [(''error'', JStr ''Unsupported tool: swap_tokens'')])],
        [SelectTool (JStr ''swap it''),
         Narrate (JStr ''swap it'') ''call_3''
           (JObj [(''error'', JStr ''Unsupported tool: swap_tokens'')])])"
  by code_simp

lemma tool_result_list:
  "tool_result (JArr xs) ev = (Inr d, tr) \<Longrightarrow> d = JArr xs"
  by (auto simp: tool_result_def split: if_splits)

lemma sol_tool_error_no_operation:
  assumes "sol_handle_tool_logic b h n a = (Inr d, tr)" and "has_error d"
  shows "tr = []"
  using assms
  by (auto simp: sol_handle_tool_logic_def has_error_def
           split: if_splits sum.splits prod.splits dest!: tool_result_list)

text \<open>
  C1, amended. \<open>_handle_tool_logic\<close> reduces a result that carries an \<open>error\<close> key to the
  object holding that entry alone. On the natural-language path with \<open>raw_data_only\<close>
  false, whatever tool call the handler takes from the model's reply (the token-info agent:
  a single tool-call object or the first of a list; the wallet agent: a single object), an
  error object returned by \<open>_handle_tool_logic\<close> is passed unchanged as \<open>data\<close>, and the
  narration step is invoked on it as the last event of the request: its text is the
  \<open>response\<close>, and its exception, if it raises, leaves the token-info handler and is
  reported by the wallet handler. In the wallet agent the operations return lists, so an
  error object means that no operation was invoked (the tool is not supported).
\<close>

theorem error_result_is_narrated:
  assumes "\<not> truthy (param params ''tool'' JNull)"
    and "truthy (param params ''query'' JNull)"
    and "\<not> truthy (param params ''raw_data_only'' (JBool False))"
    and "call_llm_with_tools l (param params ''query'' JNull) = Inr (Response content tool_calls)"
    and "json_loads b (function_arguments c) = Some args"
    and "has_error data"
  shows "(\<forall>kvs v ev. map_of kvs ''error'' = Some v \<longrightarrow>
            tool_result (JObj kvs) ev = (Inr (JObj [(''error'', v)]), [ev]))
       \<and> (first_call tool_calls = Some c
            \<and> bitquery_handle_tool_logic b q (JStr (function_name c)) args = (Inr data, tr) \<longrightarrow>
            bitquery_handle_message b q l params =
              (case call_llm l (param params ''query'' JNull) (call_id c) data of
                 Inl e \<Rightarrow> Inl e
               | Inr text \<Rightarrow> Inr (envelope (JStr text) data),
               SelectTool (param params ''query'' JNull) # tr
                 @ [Narrate (param params ''query'' JNull) (call_id c) data]))
       \<and> (tool_calls = OneCall c
            \<and> sol_handle_tool_logic b h (JStr (function_name c)) args = (Inr data, tr) \<longrightarrow>
            tr = []
            \<and> sol_handle_message b h l params =
              (case call_llm l (param params ''query'' JNull) (call_id c) data of
                 Inl e \<Rightarrow> error_dict (''Error handling message: '' @ exn_str b e)
               | Inr text \<Rightarrow> envelope (JStr text) data,
               [SelectTool (param params ''query'' JNull),
                Narrate (param params ''query'' JNull) (call_id c) data]))"
proof (intro conjI allI impI)
  fix kvs :: "(string \<times> json) list" and v ev
  assume "map_of kvs ''error'' = Some v"
  then show "tool_result (JObj kvs) ev = (Inr (JObj [(''error'', v)]), [ev])"
    by (simp add: tool_result_def)
next
  assume a: "first_call tool_calls = Some c
      \<and> bitquery_handle_tool_logic b q (JStr (function_name c)) args = (Inr data, tr)"
  then have "tool_calls = OneCall c \<or> (\<exists>cs. tool_calls = CallList (c # cs))"
    by (cases tool_calls rule: first_call.cases) auto
  then show "bitquery_handle_message b q l params =
              (case call_llm l (param params ''query'' JNull) (call_id c) data of
                 Inl e \<Rightarrow> Inl e
               | Inr text \<Rightarrow> Inr (envelope (JStr text) data),
               SelectTool (param params ''query'' JNull) # tr
                 @ [Narrate (param params ''query'' JNull) (call_id c) data])"
    using assms a
    by (auto simp: bitquery_handle_message_def Let_def split: sum.splits)
next
  assume a: "tool_calls = OneCall c
      \<and> sol_handle_tool_logic b h (JStr (function_name c)) args = (Inr data, tr)"
  with assms(6) show tr: "tr = []"
    using sol_tool_error_no_operation by blast
  from a assms tr show "sol_handle_message b h l params =
              (case call_llm l (param params ''query'' JNull) (call_id c) data of
                 Inl e \<Rightarrow> error_dict (''Error handling message: '' @ exn_str b e)
               | Inr text \<Rightarrow> envelope (JStr text) data,
               [SelectTool (param params ''query'' JNull),
                Narrate (param params ''query'' JNull) (call_id c) data])"
    by (auto simp: sol_handle_message_def sol_handle_message_try_def Let_def split: sum.splits)
qed

theorem error_result_is_narrated_witness:
  "has_error (error_dict ''No trading data available'')
   \<and> bitquery_handle_tool_logic builtins_ex bitquery_ex (JStr ''get_token_trading_info'')
        (JObj [(''token_address'', JStr ''MINT_E'')])
       = (Inr (error_dict ''No trading data available''),
          [Invoke ''get_token_trading_info'' [JStr ''MINT_E'']])
   \<and> bitquery_handle_message builtins_ex bitquery_ex llm_ex
        [(''query'', JStr ''price of MINT_E'')] =
       (Inr (envelope (JStr ''narration'') (error_dict ''No trading data available'')),
        [SelectTool (JStr ''price of MINT_E''),
         Invoke ''get_token_trading_info'' [JStr ''MINT_E''],
         Narrate (JStr ''price of MINT_E'') ''call_2''
           (error_dict ''No trading data available'')])
   \<and> has_error (error_dict ''Unsupported tool: swap_tokens'')
   \<and> sol_handle_message builtins_ex helius_ex llm_ex [(''query'', JStr ''swap it'')] =
       (envelope (JStr ''narration'') (error_dict ''Unsupported tool: swap_tokens''),
        [SelectTool (JStr ''swap it''),
         Narrate (JStr ''swap it'') ''call_3'' (error_dict ''Unsupported tool: swap_tokens'')])"
proof -
  let ?p1 = "[(''query'', JStr ''price of MINT_E'')]"
  let ?c1 = "ToolCall ''call_2'' ''get_token_trading_info'' ''ARGS_E''"
  let ?a1 = "JObj [(''token_address'', JStr ''MINT_E'')]"
  let ?d1 = "error_dict ''No trading data available''"
  let ?t1 = "[Invoke ''get_token_trading_info'' [JStr ''MINT_E'']]"
  have q1: "param ?p1 ''query'' JNull = JStr ''price of MINT_E''"
    by (simp add: param_def)
  have a1: "\<not> truthy (param ?p1 ''tool'' JNull)" by (simp add: param_def)
  have a2: "truthy (param ?p1 ''query'' JNull)" by (simp add: param_def)
  have a3: "\<not> truthy (param ?p1 ''raw_data_only'' (JBool False))" by (simp add: param_def)
  have a4: "call_llm_with_tools llm_ex (param ?p1 ''query'' JNull)
              = Inr (Response None (CallList [?c1]))"
    unfolding q1 by (simp add: llm_ex_def)
  have a5: "json_loads builtins_ex (function_arguments ?c1) = Some ?a1"
    by (simp add: builtins_ex_def)
  have a6: "has_error ?d1" by (simp add: has_error_def error_dict_def)
  have a7: "first_call (CallList [?c1]) = Some ?c1" by simp
  have a8: "bitquery_handle_tool_logic builtins_ex bitquery_ex (JStr (function_name ?c1)) ?a1
              = (Inr ?d1, ?t1)"
    by code_simp
  have n1: "call_llm llm_ex (JStr ''price of MINT_E'') ''call_2'' ?d1 = Inr ''narration''"
    by (simp add: llm_ex_def)
  from error_result_is_narrated [OF a1 a2 a3 a4 a5 a6, of bitquery_ex ?t1] a7 a8
  have r1: "bitquery_handle_message builtins_ex bitquery_ex llm_ex ?p1 =
       (Inr (envelope (JStr ''narration'') ?d1),
        [SelectTool (JStr ''price of MINT_E''),
         Invoke ''get_token_trading_info'' [JStr ''MINT_E''],
         Narrate (JStr ''price of MINT_E'') ''call_2'' ?d1])"
    unfolding q1 by (simp add: n1)
  let ?p2 = "[(''query'', JStr ''swap it'')]"
  let ?c2 = "ToolCall ''call_3'' ''swap_tokens'' ''ARGS_A''"
  let ?a2 = "JObj [(''token_address'', JStr ''MINT_A'')]"
  let ?d2 = "error_dict ''Unsupported tool: swap_tokens''"
  have q2: "param ?p2 ''query'' JNull = JStr ''swap it''"
    by (simp add: param_def)
  have b1: "\<not> truthy (param ?p2 ''tool'' JNull)" by (simp add: param_def)
  have b2: "truthy (param ?p2 ''query'' JNull)" by (simp add: param_def)
  have b3: "\<not> truthy (param ?p2 ''raw_data_only'' (JBool False))" by (simp add: param_def)
  have b4: "call_llm_with_tools llm_ex (param ?p2 ''query'' JNull)
              = Inr (Response None (OneCall ?c2))"
    unfolding q2 by (simp add: llm_ex_def)
  have b5: "json_loads builtins_ex (function_arguments ?c2) = Some ?a2"
    by (simp add: builtins_ex_def)
  have b6: "has_error ?d2" by (simp add: has_error_def error_dict_def)
  have b8: "sol_handle_tool_logic builtins_ex helius_ex (JStr (function_name ?c2)) ?a2
              = (Inr ?d2, [])"
    by (simp add: sol_handle_tool_logic_def fmt_def)
  have n2: "call_llm llm_ex (JStr ''swap it'') ''call_3'' ?d2 = Inr ''narration''"
    by (simp add: llm_ex_def)
  from error_result_is_narrated [OF b1 b2 b3 b4 b5 b6, of _ "[]" helius_ex] b8
  have r2: "sol_handle_message builtins_ex helius_ex llm_ex ?p2 =
       (envelope (JStr ''narration'') ?d2,
        [SelectTool (JStr ''swap it''), Narrate (JStr ''swap it'') ''call_3'' ?d2])"
    unfolding q2 by (simp add: n2)
  from a6 a8 r1 b6 r2 show ?thesis by simp
qed

lemma handle_error_Inr:
  "handle_error result = Inr error \<Longrightarrow> error = JObj [] \<or> (\<exists>v. error = JObj [(''error'', v)])"
  by (cases result) (auto split: option.splits if_splits)

lemma tool_result_data:
  "tool_result result ev = (Inr data, tr) \<Longrightarrow> data = result \<or> (\<exists>v. data = JObj [(''error'', v)])"
  by (auto simp: tool_result_def split: sum.splits if_splits dest!: handle_error_Inr)

lemma get_token_trading_info_obj: "\<exists>kvs. get_token_trading_info b q a = JObj kvs"
  by (auto simp: get_token_trading_info_def error_dict_def split: sum.splits)

lemma get_top_trending_tokens_obj: "\<exists>kvs. get_top_trending_tokens b q = JObj kvs"
  by (auto simp: get_top_trending_tokens_def error_dict_def split: sum.splits)

lemma bitquery_tool_data:
  assumes "bitquery_handle_tool_logic b q n a = (Inr data, tr)"
  shows "\<exists>kvs. data = JObj kvs"
  using assms get_token_trading_info_obj [of b q] get_top_trending_tokens_obj [of b q]
  by (auto simp: bitquery_handle_tool_logic_def error_dict_def
           split: if_splits sum.splits dest!: tool_result_data)

lemma sol_tool_data:
  assumes "sol_handle_tool_logic b h n a = (Inr data, tr)"
  shows "(\<exists>xs. data = JArr xs) \<or> (\<exists>kvs. data = JObj kvs)"
  using assms
  by (auto simp: sol_handle_tool_logic_def error_dict_def
           split: if_splits sum.splits prod.splits dest!: tool_result_data)

lemma is_response_envelope_envelope [simp]: "is_response_envelope (envelope (JStr r) (JObj d))"
  by (simp add: is_response_envelope_def envelope_def)

lemma bitquery_handle_message_shape:
  assumes "fst (bitquery_handle_message b q l params) = Inr v"
  shows "(\<exists>msg. v = error_dict msg) \<or> is_response_envelope v"
  using assms
  by (auto simp: bitquery_handle_message_def Let_def missing_input_def
           split: if_splits sum.splits prod.splits llm_response.splits option.splits
           dest!: bitquery_tool_data)

lemma sol_handle_message_try_shape:
  assumes "fst (sol_handle_message_try b h l params) = Inr v"
  shows "(\<exists>msg. v = error_dict msg)
     \<or> (\<exists>r d. v = envelope (JStr r) d \<and> ((\<exists>xs. d = JArr xs) \<or> (\<exists>kvs. d = JObj kvs)))"
  using assms
  by (auto simp: sol_handle_message_try_def Let_def missing_input_def
           split: if_splits sum.splits prod.splits llm_response.splits option.splits calls.splits
           dest!: sol_tool_data)
     blast+

lemma error_dict_not_envelope [simp]: "\<not> is_response_envelope (error_dict msg)"
  by (simp add: is_response_envelope_def error_dict_def)

text \<open>
  C2 as stated fails: on the missing-input path both agents return a bare error object,
  with neither a \<open>response\<close> nor a \<open>data\<close> field, and the \<open>data\<close> of the wallet agent's
  operations is a list.
\<close>

theorem handle_message_envelope_counterexample:
  "fst (bitquery_handle_message builtins_ex bitquery_ex llm_ex [])
     = Inr (JObj [(''error'',
              JStr ''Either 'query' or 'tool' must be provided in the parameters.'')])
   \<and> fst (sol_handle_message builtins_ex helius_ex llm_ex [])
     = JObj [(''error'',
              JStr ''Either 'query' or 'tool' must be provided in the parameters.'')]
   \<and> \<not> is_response_envelope (JObj [(''error'',
              JStr ''Either 'query' or 'tool' must be provided in the parameters.'')])
   \<and> \<not> is_response_envelope (fst (sol_handle_message builtins_ex helius_ex llm_ex
          [(''tool'', JStr ''get_sol_wallet_assets''),
           (''tool_arguments'', JObj [(''owner_address'', JStr ''w3'')])]))
   \<and> fst (sol_handle_message builtins_ex helius_ex llm_ex
          [(''tool'', JStr ''get_sol_wallet_assets''),
           (''tool_arguments'', JObj [(''owner_address'', JStr ''w3'')])])
     = JObj [(''response'', JStr []), (''data'', JArr [])]"
  by code_simp

text \<open>
  C2, amended. Whatever the params, a value returned by \<open>handle_message\<close> is either a bare
  error object \<open>{error: string}\<close> or an object with a \<open>response\<close> field holding a string and
  a \<open>data\<close> field. The token-info agent's \<open>data\<close> is an object (the agent may also raise
  instead of returning); the wallet agent always returns, and its \<open>data\<close> is a list or an
  object.
\<close>

theorem handle_message_shape:
  "(\<forall>v. fst (bitquery_handle_message b q l params) = Inr v \<longrightarrow>
       (\<exists>msg. v = error_dict msg) \<or> is_response_envelope v)
   \<and> ((\<exists>msg. fst (sol_handle_message b h l params) = error_dict msg)
      \<or> (\<exists>r d. fst (sol_handle_message b h l params) = envelope (JStr r) d
             \<and> ((\<exists>xs. d = JArr xs) \<or> (\<exists>kvs. d = JObj kvs))))"
proof (intro conjI allI impI)
  fix v assume "fst (bitquery_handle_message b q l params) = Inr v"
  then show "(\<exists>msg. v = error_dict msg) \<or> is_response_envelope v"
    by (rule bitquery_handle_message_shape)
next
  obtain r tr where r: "sol_handle_message_try b h l params = (r, tr)"
    by (cases "sol_handle_message_try b h l params")
  show "(\<exists>msg. fst (sol_handle_message b h l params) = error_dict msg)
      \<or> (\<exists>r d. fst (sol_handle_message b h l params) = envelope (JStr r) d
             \<and> ((\<exists>xs. d = JArr xs) \<or> (\<exists>kvs. d = JObj kvs)))"
  proof (cases r)
    case (Inl e)
    with r show ?thesis by (auto simp: sol_handle_message_def)
  next
    case (Inr v)
    with r have "fst (sol_handle_message_try b h l params) = Inr v" by simp
    from sol_handle_message_try_shape [OF this] r Inr show ?thesis
      by (simp add: sol_handle_message_def)
  qed
qed

theorem handle_message_shape_witness:
  "fst (bitquery_handle_message builtins_ex bitquery_ex llm_ex
          [(''tool'', JStr ''get_token_trading_info''),
           (''tool_arguments'', JObj [(''token_address'', JStr ''MINT_E'')])])
     = Inr (envelope (JStr []) (error_dict ''No trading data available''))
   \<and> is_response_envelope (envelope (JStr []) (error_dict ''No trading data available''))"
proof -
  have r: "fst (bitquery_handle_message builtins_ex bitquery_ex llm_ex
          [(''tool'', JStr ''get_token_trading_info''),
           (''tool_arguments'', JObj [(''token_address'', JStr ''MINT_E'')])])
     = Inr (envelope (JStr []) (error_dict ''No trading data available''))"
    by code_simp
  have "\<not> (\<exists>msg. envelope (JStr []) (error_dict ''No trading data available'') = error_dict msg)"
    by (simp add: envelope_def error_dict_def)
  with handle_message_shape [of builtins_ex bitquery_ex llm_ex
          "[(''tool'', JStr ''get_token_trading_info''),
            (''tool_arguments'', JObj [(''token_address'', JStr ''MINT_E'')])]"] r
  show ?thesis by blast
qed

section \<open>Properties of the wallet fetch and the fan-out\<close>

lemma merge_holders_skip_empty:
  "merge_holders m ps = merge_holders m (filter (\<lambda>p. snd p \<noteq> []) ps)"
proof (induction ps arbitrary: m)
  case Nil
  then show ?case by simp
next
  case (Cons p ps)
  obtain hr assets where p: "p = (hr, assets)" by (cases p)
  show ?case
  proof (cases "assets = []")
    case True
    with p Cons.IH [of m] show ?thesis by simp
  next
    case False
    with p Cons.IH show ?thesis
      by (cases "add_tokens hr m assets") simp_all
  qed
qed

lemma zip_map_self: "zip xs (map f xs) = map (\<lambda>x. (x, f x)) xs"
  by (induction xs) simp_all

lemma analyze_results_without:
  assumes "\<And>hr. address hr = a \<Longrightarrow> f hr = []"
  shows "analyze_results ths (map f ths)
       = analyze_results (filter (\<lambda>hr. address hr \<noteq> a) ths)
           (map f (filter (\<lambda>hr. address hr \<noteq> a) ths))"
proof -
  have "filter (\<lambda>p. snd p \<noteq> []) (map (\<lambda>x. (x, f x)) ths)
      = filter (\<lambda>p. snd p \<noteq> []) (map (\<lambda>x. (x, f x)) (filter (\<lambda>hr. address hr \<noteq> a) ths))"
    using assms by (induction ths) auto
  then have "merge_holders [] (zip ths (map f ths))
      = merge_holders [] (zip (filter (\<lambda>hr. address hr \<noteq> a) ths)
                              (map f (filter (\<lambda>hr. address hr \<noteq> a) ths)))"
    unfolding zip_map_self
    using merge_holders_skip_empty [of "[]" "map (\<lambda>x. (x, f x)) ths"]
          merge_holders_skip_empty [of "[]" "map (\<lambda>x. (x, f x)) (filter (\<lambda>hr. address hr \<noteq> a) ths)"]
    by simp
  then show ?thesis by (simp add: analyze_results_def)
qed

lemma analyze_results_all_empty:
  assumes "\<And>hr. hr \<in> set ths \<Longrightarrow> f hr = []"
  shows "analyze_results ths (map f ths) = []"
proof -
  have "filter (\<lambda>p. snd p \<noteq> []) (map (\<lambda>x. (x, f x)) ths) = []"
    using assms by (induction ths) auto
  then have "merge_holders [] (zip ths (map f ths)) = Inr []"
    unfolding zip_map_self
    using merge_holders_skip_empty [of "[]" "map (\<lambda>x. (x, f x)) ths"] by simp
  then show ?thesis
    by (simp add: analyze_results_def rank_tokens_def sorted_desc_def)
qed

lemma get_wallet_assets_without [simp]:
  "get_wallet_assets (without_holder a h) = get_wallet_assets h"
  by (rule ext) (simp add: get_wallet_assets_def without_holder_def)

lemma analyze_holders_without:
  assumes "get_wallet_assets h (JStr a) = []"
  shows "analyze_holders h t n = analyze_holders (without_holder a h) t n"
proof -
  let ?f = "\<lambda>hr. get_wallet_assets h (JStr (address hr))"
  let ?hs = "get_holders h t n"
  let ?P = "\<lambda>hr. address hr \<noteq> a"
  have hs': "get_holders (without_holder a h) t n = filter ?P ?hs"
    by (simp add: without_holder_def)
  have comm: "top_holders_of (filter ?P ?hs) = filter ?P (top_holders_of ?hs)"
    by (auto simp: top_holders_of_def intro: filter_cong)
  have empty: "\<And>hr. address hr = a \<Longrightarrow> ?f hr = []"
    using assms by simp
  show ?thesis
  proof (cases "?hs = []")
    case True
    then show ?thesis by (simp add: analyze_holders_def hs')
  next
    case False
    have lhs: "analyze_holders h t n = analyze_results (top_holders_of ?hs) (map ?f (top_holders_of ?hs))"
      using False by (simp add: analyze_holders_def Let_def)
    show ?thesis
    proof (cases "filter ?P ?hs = []")
      case True
      then have all_a: "\<forall>hr \<in> set ?hs. address hr = a"
        by (simp add: filter_empty_conv)
      have "?f hr = []" if "hr \<in> set (top_holders_of ?hs)" for hr
      proof -
        from that have "hr \<in> set ?hs" by (simp add: top_holders_of_def)
        with all_a have "address hr = a" by blast
        with assms show ?thesis by simp
      qed
      then have "analyze_results (top_holders_of ?hs) (map ?f (top_holders_of ?hs)) = []"
        by (rule analyze_results_all_empty)
      with lhs True show ?thesis
        by (simp add: analyze_holders_def hs')
    next
      case ne: False
      then have "analyze_holders (without_holder a h) t n
          = analyze_results (filter ?P (top_holders_of ?hs)) (map ?f (filter ?P (top_holders_of ?hs)))"
        by (simp add: analyze_holders_def Let_def hs' comm)
      with lhs analyze_results_without [of a ?f "top_holders_of ?hs", OF empty]
      show ?thesis by simp
    qed
  qed
qed

text \<open>
  C6 as stated fails: a reply of the wrong shape need not make processing raise. The reply
  for \<open>w7\<close> has null prices in its native balance; \<open>get_wallet_assets\<close> returns the
  holding as it is, the merge raises on its \<open>total_price\<close>, and \<open>analyze_holders\<close> returns
  the empty list instead of the ranking built from \<open>w1\<close> and \<open>w2\<close>.
\<close>

theorem poisoned_batch_counterexample:
  "search_assets helius_bad (JStr ''w7'') =
     Inr (native_reply
            (JObj [(''lamports'', JNum 5), (''price_per_sol'', JNull), (''total_price'', JNull)])
            [])
   \<and> get_wallet_assets helius_bad (JStr ''w7'') =
       [\<lparr>token_address = JStr sol_address, token_img = JStr [], symbol = JStr ''SOL'',
         price_per_token = JNull, total_price = JNull\<rparr>]
   \<and> map address (get_holders helius_bad (JStr ''T'') (JNum 20)) = [''w1'', ''w2'', ''w7'']
   \<and> analyze_holders helius_bad (JStr ''T'') (JNum 20) = []
   \<and> map total_holding_value
        (analyze_holders (without_holder ''w7'' helius_bad) (JStr ''T'') (JNum 20)) = [500, 60]"
  by code_simp

text \<open>
  C6, amended. When the asset request for a wallet raises (a transport error, a timeout),
  or processing its reply raises, \<open>get_wallet_assets\<close> returns the empty list instead of
  propagating the error. A holder whose fetch fails in this way, or returns the empty list
  for any reason, does not change the outcome of \<open>analyze_holders\<close>: the result is the one
  built from the other holders, and it is a list of aggregates, never an error.
\<close>

theorem failed_fetch_is_absorbed:
  "(fetch_raises h owner \<longrightarrow> get_wallet_assets h owner = [])
   \<and> (fetch_raises h (JStr a) \<or> get_wallet_assets h (JStr a) = []
        \<longrightarrow> analyze_holders h t n = analyze_holders (without_holder a h) t n)"
proof (intro conjI impI)
  have empty: "get_wallet_assets h x = []" if "fetch_raises h x" for x
    using that by (simp add: fetch_raises_def get_wallet_assets_def split: sum.splits)
  show "get_wallet_assets h owner = []" if "fetch_raises h owner"
    using that by (rule empty)
  show "analyze_holders h t n = analyze_holders (without_holder a h) t n"
    if "fetch_raises h (JStr a) \<or> get_wallet_assets h (JStr a) = []"
    using that empty analyze_holders_without by blast
qed

theorem failed_fetch_is_absorbed_witness:
  "search_assets helius_ex (JStr ''w3'') = Inl ClientError
   \<and> fetch_raises helius_ex (JStr ''w3'')
   \<and> get_wallet_assets helius_ex (JStr ''w3'') = []
   \<and> search_assets helius_ex (JStr ''w4'') = Inr (JObj [(''result'', JStr ''unavailable'')])
   \<and> fetch_raises helius_ex (JStr ''w4'')
   \<and> get_wallet_assets helius_ex (JStr ''w4'') = []
   \<and> map address (get_holders helius_ex (JStr ''T'') (JNum 20))
       = [''w1'', raydium_address, ''w2'', ''w3'']
   \<and> map address (get_holders (without_holder ''w3'' helius_ex) (JStr ''T'') (JNum 20))
       = [''w1'', raydium_address, ''w2'']
   \<and> analyze_holders helius_ex (JStr ''T'') (JNum 20)
       = analyze_holders (without_holder ''w3'' helius_ex) (JStr ''T'') (JNum 20)
   \<and> map total_holding_value
        (analyze_holders (without_holder ''w3'' helius_ex) (JStr ''T'') (JNum 20)) = [500, 60]"
proof -
  have a3: "search_assets helius_ex (JStr ''w3'') = Inl ClientError"
    by (simp add: helius_ex_def)
  have f3: "fetch_raises helius_ex (JStr ''w3'')"
    by (simp add: fetch_raises_def a3)
  have a4: "search_assets helius_ex (JStr ''w4'') = Inr (JObj [(''result'', JStr ''unavailable'')])"
    by (simp add: helius_ex_def)
  have f4: "fetch_raises helius_ex (JStr ''w4'')"
    by (simp add: fetch_raises_def a4 wallet_assets_of_def)
  have hs: "map address (get_holders helius_ex (JStr ''T'') (JNum 20))
       = [''w1'', raydium_address, ''w2'', ''w3'']"
    by (simp add: helius_ex_def)
  have hs': "map address (get_holders (without_holder ''w3'' helius_ex) (JStr ''T'') (JNum 20))
       = [''w1'', raydium_address, ''w2'']"
    by (simp add: without_holder_def helius_ex_def raydium_address_def)
  have v: "map total_holding_value
        (analyze_holders (without_holder ''w3'' helius_ex) (JStr ''T'') (JNum 20)) = [500, 60]"
    by code_simp
  from failed_fetch_is_absorbed [of helius_ex "JStr ''w3''" "''w3''" "JStr ''T''" "JNum 20"] f3
  have e3: "get_wallet_assets helius_ex (JStr ''w3'') = []"
    and rest: "analyze_holders helius_ex (JStr ''T'') (JNum 20)
       = analyze_holders (without_holder ''w3'' helius_ex) (JStr ''T'') (JNum 20)"
    by blast+
  from failed_fetch_is_absorbed [of helius_ex "JStr ''w4''"] f4
  have e4: "get_wallet_assets helius_ex (JStr ''w4'') = []"
    by blast
  from a3 f3 e3 a4 f4 e4 hs hs' rest v show ?thesis by blast
qed

lemma efilter_Inr:
  "efilter p xs = Inr ys \<Longrightarrow> set ys \<subseteq> set xs \<and> (\<forall>y \<in> set ys. p y = Inr True)"
proof (induction xs arbitrary: ys)
  case Nil
  then show ?case by simp
next
  case (Cons x xs)
  from Cons.prems obtain t zs where t: "p x = Inr t" and zs: "efilter p xs = Inr zs"
    and ys: "ys = (if t then x # zs else zs)"
    by (auto elim!: ebind_InrE)
  from Cons.IH [OF zs] t ys show ?case by auto
qed

lemma emap_Inr:
  "emap f xs = Inr ys \<Longrightarrow> \<forall>y \<in> set ys. \<exists>x \<in> set xs. f x = Inr y"
proof (induction xs arbitrary: ys)
  case Nil
  then show ?case by simp
next
  case (Cons x xs)
  from Cons.prems obtain z zs where "f x = Inr z" and zs: "emap f xs = Inr zs"
    and "ys = z # zs"
    by (auto elim!: ebind_InrE)
  with Cons.IH [OF zs] show ?case by auto
qed

lemma priced_asset_holding:
  assumes "has_price_over_100 item = Inr True" and "asset_holding item = Inr t"
  shows "\<exists>p. num_of (total_price t) = Some p \<and> 100 < p"
proof -
  from assms(1) obtain kvs where item: "item = JObj kvs"
    by (cases item) (auto simp: has_price_over_100_def)
  from assms(1) item obtain ti where ti: "map_of kvs ''token_info'' = Some ti"
    by (cases "map_of kvs ''token_info''") (auto simp: has_price_over_100_def)
  from assms(1) item ti obtain tkvs where tkvs: "ti = JObj tkvs"
    by (cases ti) (auto simp: has_price_over_100_def)
  from assms(1) item ti tkvs obtain pinfo where pinfo: "map_of tkvs ''price_info'' = Some pinfo"
    by (cases "map_of tkvs ''price_info''") (auto simp: has_price_over_100_def)
  from assms(1) item ti tkvs pinfo obtain pkvs where pkvs: "pinfo = JObj pkvs"
    by (cases pinfo) (auto simp: has_price_over_100_def split: if_splits)
  let ?tp = "case map_of pkvs ''total_price'' of Some x \<Rightarrow> x | None \<Rightarrow> JNum 0"
  from assms(1) item ti tkvs pinfo pkvs have lt: "py_lt (JNum 100) ?tp = Inr True"
    by (auto simp: has_price_over_100_def split: if_splits)
  from assms(2) item ti tkvs pinfo pkvs have "total_price t = ?tp"
    by (auto simp: asset_holding_def elim!: ebind_InrE)
  with lt show ?thesis
    by (cases ?tp) (auto simp: py_lt_def split: if_splits)
qed

text \<open>
  C10 as stated fails: the reply for \<open>w5\<close> contains a native balance, and the list
  returned is empty, because building the entry of the asset without \<open>id\<close> raises.
\<close>

theorem native_first_counterexample:
  "search_assets helius_ex (JStr ''w5'') =
     Inr (native_reply
            (JObj [(''lamports'', JNum 5), (''price_per_sol'', JNum 150),
                   (''total_price'', JNum 30)])
            [JObj [(''token_info'', JObj [(''symbol'', JStr ''AAA''),
               (''price_info'', JObj [(''price_per_token'', JNum 2),
                                      (''total_price'', JNum 300)])])]])
   \<and> truthy (JObj [(''lamports'', JNum 5), (''price_per_sol'', JNum 150),
                   (''total_price'', JNum 30)])
   \<and> get_wallet_assets helius_ex (JStr ''w5'') = []"
  by code_simp

text \<open>
  C10, amended. Whenever the result of the upstream response holds a truthy (non-empty)
  native balance and processing the response raises no exception, the list returned by
  \<open>get_wallet_assets\<close> starts with the native SOL holding, which carries the balance's
  \<open>price_per_sol\<close> and \<open>total_price\<close> (0 when absent) whatever their values and whatever
  else the balance holds: neither filter is applied to it. Every asset after it has a
  \<open>total_price\<close> above 100. (When processing raises, the list is empty.)
\<close>

theorem native_first:
  assumes "search_assets h owner = Inr data"
    and "subscript data ''result'' = Inr res"
    and "dict_get res ''nativeBalance'' JNull = Inr native_balance"
    and "truthy native_balance"
    and "wallet_assets_of data = Inr hold_tokens"
  shows "\<exists>pps tp others.
           dict_get native_balance ''price_per_sol'' (JNum 0) = Inr pps
         \<and> dict_get native_balance ''total_price'' (JNum 0) = Inr tp
         \<and> get_wallet_assets h owner =
             \<lparr>token_address = JStr sol_address, token_img = JStr [], symbol = JStr ''SOL'',
              price_per_token = pps, total_price = tp\<rparr> # others
         \<and> (\<forall>x \<in> set others. \<exists>p. num_of (total_price x) = Some p \<and> 100 < p)"
proof -
  from assms(2) obtain kvs where data: "data = JObj kvs"
    by (cases data) auto
  from assms(2) data have res: "map_of kvs ''result'' = Some res"
    by (auto split: option.splits)
  from assms(3) obtain rkvs where r: "res = JObj rkvs"
    by (cases res) auto
  from assms(3,4) r have "truthy res"
    by (cases rkvs) auto
  with assms(5) data res assms(2)
  have "ebind (subscript data ''result'') (\<lambda>res.
        ebind (subscript res ''items'') (\<lambda>items.
        ebind (py_iter items) (\<lambda>its.
        ebind (efilter has_price_over_100 its) (\<lambda>filtered_assets.
        ebind (efilter not_mutable filtered_assets) (\<lambda>non_mutable_assets.
        ebind (subscript data ''result'') (\<lambda>res2.
        ebind (dict_get res2 ''nativeBalance'' JNull) (\<lambda>native_balance.
        ebind (if truthy native_balance
               then ebind (native_holding native_balance) (\<lambda>h. Inr [h])
               else Inr []) (\<lambda>hold_tokens.
        ebind (emap asset_holding non_mutable_assets) (\<lambda>others.
          Inr (hold_tokens @ others)))))))))) = Inr hold_tokens"
    by (simp add: wallet_assets_of_def)
  then obtain its fa nm nh others where fa: "efilter has_price_over_100 its = Inr fa"
    and nm: "efilter not_mutable fa = Inr nm"
    and others: "emap asset_holding nm = Inr others"
    and nh: "native_holding native_balance = Inr nh"
    and hs: "hold_tokens = nh # others"
    using assms(2,3,4)
    by (auto elim!: ebind_InrE)
  from nh obtain pps tp where pps: "dict_get native_balance ''price_per_sol'' (JNum 0) = Inr pps"
    and tp: "dict_get native_balance ''total_price'' (JNum 0) = Inr tp"
    and nhv: "nh = \<lparr>token_address = JStr sol_address, token_img = JStr [], symbol = JStr ''SOL'',
              price_per_token = pps, total_price = tp\<rparr>"
    by (auto simp: native_holding_def elim!: ebind_InrE)
  have priced: "\<forall>x \<in> set others. \<exists>p. num_of (total_price x) = Some p \<and> 100 < p"
  proof
    fix x assume "x \<in> set others"
    with emap_Inr [OF others] obtain item where item: "item \<in> set nm"
      and x: "asset_holding item = Inr x" by blast
    from item efilter_Inr [OF nm] efilter_Inr [OF fa]
    have "has_price_over_100 item = Inr True" by blast
    then show "\<exists>p. num_of (total_price x) = Some p \<and> 100 < p"
      using x by (rule priced_asset_holding)
  qed
  from hs assms(1,5) have "get_wallet_assets h owner = nh # others"
    by (simp add: get_wallet_assets_def)
  with pps tp nhv priced show ?thesis by blast
qed

theorem native_first_witness:
  "search_assets helius_ex (JStr ''w6'') =
     Inr (native_reply
            (JObj [(''lamports'', JNum 0), (''price_per_sol'', JNum 150),
                   (''total_price'', JNum 0), (''mutable'', JBool True)]) [])
   \<and> truthy (JObj [(''lamports'', JNum 0), (''price_per_sol'', JNum 150),
                   (''total_price'', JNum 0), (''mutable'', JBool True)])
   \<and> get_wallet_assets helius_ex (JStr ''w6'') =
       [\<lparr>token_address = JStr sol_address, token_img = JStr [], symbol = JStr ''SOL'',
         price_per_token = JNum 150, total_price = JNum 0\<rparr>]"
proof -
  let ?nb = "JObj [(''lamports'', JNum 0), (''price_per_sol'', JNum 150),
                   (''total_price'', JNum 0), (''mutable'', JBool True)]"
  let ?res = "JObj [(''items'', JArr []), (''nativeBalance'', ?nb)]"
  have h1: "search_assets helius_ex (JStr ''w6'') = Inr (native_reply ?nb [])"
    by (simp add: helius_ex_def)
  have h2: "subscript (native_reply ?nb []) ''result'' = Inr ?res"
    by (simp add: native_reply_def)
  have h3: "dict_get ?res ''nativeBalance'' JNull = Inr ?nb"
    by simp
  have h4: "truthy ?nb"
    by simp
  have h5: "wallet_assets_of (native_reply ?nb []) =
     Inr [\<lparr>token_address = JStr sol_address, token_img = JStr [], symbol = JStr ''SOL'',
            price_per_token = JNum 150, total_price = JNum 0\<rparr>]"
    by (simp add: wallet_assets_of_def native_reply_def native_holding_def)
  from native_first [OF h1 h2 h3 h4 h5] obtain pps tp others
    where "dict_get ?nb ''price_per_sol'' (JNum 0) = Inr pps"
      and "dict_get ?nb ''total_price'' (JNum 0) = Inr tp"
      and g: "get_wallet_assets helius_ex (JStr ''w6'') =
             \<lparr>token_address = JStr sol_address, token_img = JStr [], symbol = JStr ''SOL'',
              price_per_token = pps, total_price = tp\<rparr> # others"
    by blast
  moreover have "get_wallet_assets helius_ex (JStr ''w6'') =
       [\<lparr>token_address = JStr sol_address, token_img = JStr [], symbol = JStr ''SOL'',
         price_per_token = JNum 150, total_price = JNum 0\<rparr>]"
    using h1 h5 by (simp add: get_wallet_assets_def)
  ultimately show ?thesis using h1 h4 by simp
qed

section \<open>Properties of the concurrent fetch and of the merge\<close>

lemma fill_length:
  "length (foldl (\<lambda>slots i. slots[i := Some (task i)]) slots c) = length slots"
  by (induction c arbitrary: slots) simp_all

lemma fill_nth:
  "i < length slots \<Longrightarrow>
     foldl (\<lambda>slots i. slots[i := Some (task i)]) slots c ! i
       = (if i \<in> set c then Some (task i) else slots ! i)"
proof (induction c arbitrary: slots)
  case Nil
  then show ?case by simp
next
  case (Cons j c)
  from Cons.prems have "i < length (slots[j := Some (task j)])" by simp
  from Cons.IH [OF this] Cons.prems show ?case
    by (auto simp: nth_list_update)
qed

lemma those_map_Some: "those (map Some xs) = Some xs"
  by (induction xs) simp_all

lemma gather_complete:
  assumes "set c = {0..<n}"
  shows "gather c task n = Some (map task [0..<n])"
proof -
  let ?slots = "foldl (\<lambda>slots i. slots[i := Some (task i)]) (replicate n None) c"
  have "?slots = map Some (map task [0..<n])"
  proof (rule nth_equalityI)
    show "length ?slots = length (map Some (map task [0..<n]))"
      by (simp add: fill_length)
  next
    fix i assume "i < length ?slots"
    then have i: "i < n" by (simp add: fill_length)
    then have "?slots ! i = (if i \<in> set c then Some (task i) else replicate n None ! i)"
      by (intro fill_nth) simp
    with i assms show "?slots ! i = map Some (map task [0..<n]) ! i"
      by simp
  qed
  then have "gather c task n = those (map Some (map task [0..<n]))"
    by (simp only: gather_def)
  then show ?thesis
    by (simp only: those_map_Some)
qed

lemma analyze_holders_gather_complete:
  assumes "completion_order (length (top_holders_of (get_holders h t n))) c"
  shows "analyze_holders_gather c h t n = Some (analyze_holders h t n)"
proof -
  let ?ths = "top_holders_of (get_holders h t n)"
  from assms have "set c = {0..<length ?ths}"
    by (simp add: completion_order_def)
  then have "gather c (\<lambda>i. get_wallet_assets h (JStr (address (?ths ! i)))) (length ?ths)
      = Some (map (\<lambda>i. get_wallet_assets h (JStr (address (?ths ! i)))) [0..<length ?ths])"
    by (rule gather_complete)
  moreover have "map (\<lambda>i. get_wallet_assets h (JStr (address (?ths ! i)))) [0..<length ?ths]
      = map (\<lambda>hr. get_wallet_assets h (JStr (address hr))) ?ths"
    by (rule nth_equalityI) simp_all
  ultimately show ?thesis
    by (simp add: analyze_holders_gather_def analyze_holders_def Let_def)
qed

text \<open>
  C3. Whatever the order in which the concurrent per-holder fetches complete,
  \<open>analyze_holders\<close> returns the same sequence of aggregates, in the same order: two runs
  on the same upstream responses agree, and both give what the merge over the results in
  holder order gives.
\<close>

theorem analyze_holders_deterministic:
  assumes "completion_order (length (top_holders_of (get_holders h t n))) c1"
    and "completion_order (length (top_holders_of (get_holders h t n))) c2"
  shows "analyze_holders_gather c1 h t n = analyze_holders_gather c2 h t n
     \<and> analyze_holders_gather c1 h t n = Some (analyze_holders h t n)"
  using assms by (simp add: analyze_holders_gather_complete)

theorem analyze_holders_deterministic_witness:
  "completion_order 3 [2, 0, 1] \<and> completion_order 3 [0, 1, 2]
   \<and> length (top_holders_of (get_holders helius_ex (JStr ''T'') (JNum 20))) = 3
   \<and> analyze_holders_gather [2, 0, 1] helius_ex (JStr ''T'') (JNum 20)
       = analyze_holders_gather [0, 1, 2] helius_ex (JStr ''T'') (JNum 20)
   \<and> map_option (map total_holding_value)
         (analyze_holders_gather [2, 0, 1] helius_ex (JStr ''T'') (JNum 20)) = Some [500, 60]"
proof -
  have len: "length (top_holders_of (get_holders helius_ex (JStr ''T'') (JNum 20))) = 3"
    by code_simp
  have c1: "completion_order 3 [2, 0, 1]"
    by (auto simp: completion_order_def)
  have c2: "completion_order 3 [0, 1, 2]"
    by (auto simp: completion_order_def)
  have v: "map_option (map total_holding_value)
         (analyze_holders_gather [2, 0, 1] helius_ex (JStr ''T'') (JNum 20)) = Some [500, 60]"
    by code_simp
  from analyze_holders_deterministic [of helius_ex "JStr ''T''" "JNum 20" "[2, 0, 1]" "[0, 1, 2]"]
       c1 c2 len
  have "analyze_holders_gather [2, 0, 1] helius_ex (JStr ''T'') (JNum 20)
       = analyze_holders_gather [0, 1, 2] helius_ex (JStr ''T'') (JNum 20)"
    by simp
  with c1 c2 len v show ?thesis by blast
qed

lemma dict_set_keys:
  "map fst (dict_set k v m) = (if k \<in> fst ` set m then map fst m else map fst m @ [k])"
  by (induction m) auto

lemma dict_set_set:
  "distinct (map fst m) \<Longrightarrow>
     set (dict_set k v m) = insert (k, v) {p \<in> set m. fst p \<noteq> k}"
  by (induction m) (auto simp: image_iff)

lemma contributions_in_snoc:
  "contributions_in (ps @ [(hr, token)]) k =
     contributions_in ps k
       @ (if hash_key (token_address token) = Inr k
          then [contribution_of hr (num_val (total_price token))] else [])"
  by (simp add: contributions_in_def)

lemma add_token_merged:
  assumes inv: "merged m ps" and step: "add_token hr m token = Inr m'"
  shows "merged m' (ps @ [(hr, token)])"
proof -
  from step obtain k p where k: "hash_key (token_address token) = Inr k"
    and p: "num_of (total_price token) = Some p"
    and m': "m' = dict_set k
        ((case map_of m k of None \<Rightarrow> new_entry token | Some a \<Rightarrow> a)
           \<lparr>total_holding_value :=
              total_holding_value (case map_of m k of None \<Rightarrow> new_entry token | Some a \<Rightarrow> a) + p,
            holders := holders (case map_of m k of None \<Rightarrow> new_entry token | Some a \<Rightarrow> a)
                         @ [contribution_of hr p]\<rparr>) m"
    by (auto simp: add_token_def Let_def split: option.splits elim!: ebind_InrE)
  let ?entry = "case map_of m k of None \<Rightarrow> new_entry token | Some a \<Rightarrow> a"
  let ?new = "?entry\<lparr>total_holding_value := total_holding_value ?entry + p,
                      holders := holders ?entry @ [contribution_of hr p]\<rparr>"
  from inv have dist: "distinct (map fst m)"
    and none: "\<And>k. k \<notin> fst ` set m \<Longrightarrow> contributions_in ps k = []"
    and each: "\<And>k a. (k, a) \<in> set m \<Longrightarrow>
          hash_key (a_token_address a) = Inr k
          \<and> holders a = contributions_in ps k
          \<and> total_holding_value a = sum_list (map c_total_price (holders a))"
    unfolding merged_def by blast+
  have entry: "hash_key (a_token_address ?entry) = Inr k
          \<and> holders ?entry = contributions_in ps k
          \<and> total_holding_value ?entry = sum_list (map c_total_price (holders ?entry))"
  proof (cases "map_of m k")
    case None
    then have "k \<notin> fst ` set m" by (simp add: map_of_eq_None_iff)
    with none have "contributions_in ps k = []" by simp
    with None k show ?thesis by (simp add: new_entry_def)
  next
    case (Some a)
    then have "(k, a) \<in> set m" by (rule map_of_SomeD)
    with each Some show ?thesis by simp
  qed
  have pv: "num_val (total_price token) = p" using p by (rule num_of_num_val)
  have set_m': "set m' = insert (k, ?new) {q \<in> set m. fst q \<noteq> k}"
    unfolding m' using dist by (rule dict_set_set)
  have "distinct (map fst m')"
    unfolding m' using dist by (auto simp: dict_set_keys)
  moreover have "contributions_in (ps @ [(hr, token)]) k' = []" if "k' \<notin> fst ` set m'" for k'
  proof -
    from that have "k' \<noteq> k" and "k' \<notin> fst ` set m"
      unfolding set_m' by (auto simp: image_iff)
    with none [of k'] k show ?thesis by (simp add: contributions_in_snoc)
  qed
  moreover have "hash_key (a_token_address a) = Inr k'
          \<and> holders a = contributions_in (ps @ [(hr, token)]) k'
          \<and> total_holding_value a = sum_list (map c_total_price (holders a))"
    if "(k', a) \<in> set m'" for k' a
  proof (cases "k' = k")
    case True
    with that have "a = ?new" unfolding set_m' by auto
    with True entry k pv show ?thesis
      by (simp add: contributions_in_snoc contribution_of_def)
  next
    case False
    with that have "(k', a) \<in> set m" unfolding set_m' by auto
    with each [of k' a] False k show ?thesis
      by (simp add: contributions_in_snoc)
  qed
  ultimately show ?thesis
    unfolding merged_def by (intro conjI allI impI) blast+
qed

lemma add_tokens_merged:
  "merged m ps \<Longrightarrow> add_tokens hr m assets = Inr m'
     \<Longrightarrow> merged m' (ps @ map (Pair hr) assets)"
proof (induction assets arbitrary: m ps)
  case Nil
  then show ?case by simp
next
  case (Cons token assets)
  from Cons.prems(2) obtain m1 where m1: "add_token hr m token = Inr m1"
    and rest: "add_tokens hr m1 assets = Inr m'"
    by (auto elim!: ebind_InrE)
  from add_token_merged [OF Cons.prems(1) m1]
  have "merged m1 (ps @ [(hr, token)])" .
  from Cons.IH [OF this rest] show ?case by simp
qed

lemma merge_holders_merged:
  "merged m ps \<Longrightarrow> merge_holders m pairs = Inr m'
     \<Longrightarrow> merged m' (ps @ concat (map (\<lambda>p. map (Pair (fst p)) (snd p)) pairs))"
proof (induction pairs arbitrary: m ps)
  case Nil
  then show ?case by simp
next
  case (Cons pr pairs)
  obtain hr assets where pr: "pr = (hr, assets)" by (cases pr)
  from Cons.prems(2) pr obtain m1 where m1: "add_tokens hr m assets = Inr m1"
    and rest: "merge_holders m1 pairs = Inr m'"
    by (auto elim!: ebind_InrE)
  from add_tokens_merged [OF Cons.prems(1) m1]
  have "merged m1 (ps @ map (Pair hr) assets)" .
  from Cons.IH [OF this rest] pr show ?case by simp
qed

lemma merged_empty: "merged [] []"
  by (simp add: merged_def contributions_in_def)

lemma merged_entry:
  "merged m ps \<Longrightarrow> (k, a) \<in> set m \<Longrightarrow>
     hash_key (a_token_address a) = Inr k
     \<and> holders a = contributions_in ps k
     \<and> total_holding_value a = sum_list (map c_total_price (holders a))"
  unfolding merged_def by blast

lemma contributions_in_append:
  "contributions_in (ps @ qs) k = contributions_in ps k @ contributions_in qs k"
  by (simp add: contributions_in_def)

lemma contributions_in_Pair:
  "contributions_in (map (Pair hr) assets) k
     = map (\<lambda>token. contribution_of hr (num_val (total_price token)))
         (filter (\<lambda>token. hash_key (token_address token) = Inr k) assets)"
  by (induction assets) (simp_all add: contributions_in_def)

lemma contributions_in_concat:
  "contributions_in (concat (map (\<lambda>p. map (Pair (fst p)) (snd p)) (zip ths (map f ths)))) k
     = concat (map (\<lambda>hr. map (\<lambda>token. contribution_of hr (num_val (total_price token)))
                          (filter (\<lambda>token. hash_key (token_address token) = Inr k) (f hr))) ths)"
proof (induction ths)
  case Nil
  show ?case by (simp add: contributions_in_def)
next
  case (Cons hr ths)
  then show ?case
    by (simp add: contributions_in_append contributions_in_Pair)
qed

lemma analyze_results_member:
  assumes "a \<in> set (analyze_results ths (map f ths))"
  shows "\<exists>k a0. hash_key (a_token_address a0) = Inr k
           \<and> a = rank_holders a0
           \<and> holders a0 = concat (map (\<lambda>hr. map (\<lambda>token. contribution_of hr (num_val (total_price token)))
                          (filter (\<lambda>token. hash_key (token_address token) = Inr k) (f hr))) ths)
           \<and> total_holding_value a0 = sum_list (map c_total_price (holders a0))"
proof -
  obtain m where m: "merge_holders [] (zip ths (map f ths)) = Inr m"
    and a: "a \<in> set (rank_tokens m)"
  proof (cases "merge_holders [] (zip ths (map f ths))")
    case (Inl e)
    with assms show ?thesis by (simp add: analyze_results_def)
  next
    case (Inr m)
    with assms that show ?thesis by (simp add: analyze_results_def)
  qed
  from merge_holders_merged [OF merged_empty m]
  have inv: "merged m (concat (map (\<lambda>p. map (Pair (fst p)) (snd p)) (zip ths (map f ths))))"
    by simp
  from a obtain a0 where "a0 \<in> set (take 5 (sorted_desc total_holding_value (map snd m)))"
    and ar: "a = rank_holders a0"
    unfolding rank_tokens_def by auto
  then have "a0 \<in> set (sorted_desc total_holding_value (map snd m))"
    by (blast dest: in_set_takeD)
  then have a0: "a0 \<in> snd ` set m"
    by (simp add: sorted_desc_def)
  then obtain k where "(k, a0) \<in> set m" by auto
  from merged_entry [OF inv this]
  have "hash_key (a_token_address a0) = Inr k
      \<and> holders a0 = contributions_in (concat (map (\<lambda>p. map (Pair (fst p)) (snd p)) (zip ths (map f ths)))) k
      \<and> total_holding_value a0 = sum_list (map c_total_price (holders a0))" .
  then have "hash_key (a_token_address a0) = Inr k
           \<and> a = rank_holders a0
           \<and> holders a0 = concat (map (\<lambda>hr. map (\<lambda>token. contribution_of hr (num_val (total_price token)))
                          (filter (\<lambda>token. hash_key (token_address token) = Inr k) (f hr))) ths)
           \<and> total_holding_value a0 = sum_list (map c_total_price (holders a0))"
    using ar by (simp only: contributions_in_concat simp_thms)
  then show ?thesis
    by (intro exI)
qed

lemma analyze_holders_member:
  assumes "a \<in> set (analyze_holders h t n)"
  shows "total_holding_value a
           = sum_list (map c_total_price (all_contributions h t n (a_token_address a)))
       \<and> holders a
           = take 5 (sorted_desc c_total_price (all_contributions h t n (a_token_address a)))"
proof -
  let ?ths = "top_holders_of (get_holders h t n)"
  let ?f = "\<lambda>hr. get_wallet_assets h (JStr (address hr))"
  have unfold: "analyze_holders h t n
      = (if get_holders h t n = [] then [] else analyze_results ?ths (map ?f ?ths))"
    by (simp add: analyze_holders_def Let_def)
  have mem: "a \<in> set (analyze_results ?ths (map ?f ?ths))"
  proof (cases "get_holders h t n = []")
    case True
    with assms unfold show ?thesis by simp
  next
    case False
    with assms unfold show ?thesis by simp
  qed
  from analyze_results_member [OF mem] obtain k a0
    where k: "hash_key (a_token_address a0) = Inr k" and a: "a = rank_holders a0"
      and hs: "holders a0 = concat (map (\<lambda>hr. map (\<lambda>token. contribution_of hr (num_val (total_price token)))
                          (filter (\<lambda>token. hash_key (token_address token) = Inr k) (?f hr))) ?ths)"
      and tot: "total_holding_value a0 = sum_list (map c_total_price (holders a0))"
    by (elim exE conjE) (rule that)
  have addr: "a_token_address a = a_token_address a0"
    unfolding a by (simp add: rank_holders_def)
  have full: "all_contributions h t n (a_token_address a) = holders a0"
    unfolding all_contributions_def addr k hs ..
  have "total_holding_value a = total_holding_value a0"
    unfolding a by (simp add: rank_holders_def)
  moreover have "holders a = take 5 (sorted_desc c_total_price (holders a0))"
    unfolding a by (simp add: rank_holders_def)
  ultimately show ?thesis
    unfolding full using tot by simp
qed

lemma six_result:
  "analyze_holders helius_six (JStr ''T'') (JNum 20) =
     [\<lparr>a_token_address = JStr sol_address, a_token_img = JStr [], a_symbol = JStr ''SOL'',
       a_price_per_token = JNum 150, total_holding_value = 1200,
       holders = map six_holder [''v1'', ''v2'', ''v3'', ''v4'', ''v5''],
       gmgn_referral_link = Some referral_link\<rparr>]"
  by code_simp

lemma six_contributions:
  "all_contributions helius_six (JStr ''T'') (JNum 20) (JStr sol_address)
     = map six_holder [''v1'', ''v2'', ''v3'', ''v4'', ''v5'', ''v6'']"
  by code_simp

text \<open>
  C9. The \<open>total_holding_value\<close> of every aggregate returned by \<open>analyze_holders\<close> is the
  sum of \<open>total_price\<close> over all holder records that contribute to its token, while its
  \<open>holders\<close> list keeps only the five largest of them. With six holders of one token,
  each worth 200, the total (1200) exceeds the sum over the holders listed (1000).
\<close>

theorem total_holding_value_counts_all:
  "(\<forall>a \<in> set (analyze_holders h t n).
      total_holding_value a
        = sum_list (map c_total_price (all_contributions h t n (a_token_address a)))
      \<and> holders a
        = take 5 (sorted_desc c_total_price (all_contributions h t n (a_token_address a))))
   \<and> sum_list (map c_total_price
         (holders (hd (analyze_holders helius_six (JStr ''T'') (JNum 20)))))
       < total_holding_value (hd (analyze_holders helius_six (JStr ''T'') (JNum 20)))"
proof
  show "\<forall>a \<in> set (analyze_holders h t n).
      total_holding_value a
        = sum_list (map c_total_price (all_contributions h t n (a_token_address a)))
      \<and> holders a
        = take 5 (sorted_desc c_total_price (all_contributions h t n (a_token_address a)))"
    using analyze_holders_member by blast
  show "sum_list (map c_total_price
         (holders (hd (analyze_holders helius_six (JStr ''T'') (JNum 20)))))
       < total_holding_value (hd (analyze_holders helius_six (JStr ''T'') (JNum 20)))"
    unfolding six_result by (simp add: six_holder_def)
qed

theorem total_holding_value_counts_all_witness:
  "map a_token_address (analyze_holders helius_six (JStr ''T'') (JNum 20)) = [JStr sol_address]
   \<and> length (all_contributions helius_six (JStr ''T'') (JNum 20) (JStr sol_address)) = 6
   \<and> total_holding_value (hd (analyze_holders helius_six (JStr ''T'') (JNum 20)))
       = sum_list (map c_total_price
           (all_contributions helius_six (JStr ''T'') (JNum 20) (JStr sol_address)))
   \<and> total_holding_value (hd (analyze_holders helius_six (JStr ''T'') (JNum 20))) = 1200
   \<and> length (holders (hd (analyze_holders helius_six (JStr ''T'') (JNum 20)))) = 5"
proof -
  let ?r = "analyze_holders helius_six (JStr ''T'') (JNum 20)"
  have addrs: "map a_token_address ?r = [JStr sol_address]"
    unfolding six_result by simp
  have mem: "hd ?r \<in> set ?r"
    unfolding six_result by simp
  have hd_addr: "a_token_address (hd ?r) = JStr sol_address"
    unfolding six_result by simp
  have six: "length (all_contributions helius_six (JStr ''T'') (JNum 20) (JStr sol_address)) = 6"
    unfolding six_contributions by simp
  have total: "total_holding_value (hd ?r) = 1200"
    unfolding six_result by simp
  have five: "length (holders (hd ?r)) = 5"
    unfolding six_result by simp
  from total_holding_value_counts_all [of helius_six "JStr ''T''" "JNum 20"] mem
  have "total_holding_value (hd ?r)
       = sum_list (map c_total_price
           (all_contributions helius_six (JStr ''T'') (JNum 20) (a_token_address (hd ?r))))"
    by blast
  with hd_addr addrs six total five show ?thesis by simp
qed

end
